theory Spec2Isabelle
  imports Main
begin

section \<open>Domain types (src/types/index.ts)\<close>

text \<open>
  The TypeScript casts \<^verbatim>\<open>record.get('staff_id') as string\<close> are unchecked, so an absent
  cell reaches the domain object as \<^verbatim>\<open>undefined\<close>; the two fields of a staff member are
  therefore optional strings.
\<close>

record StaffMember =
  id_sm :: "string option"
  name_sm :: "string option"

record FulfillmentTask =
  id_ft :: string
  orderName :: string
  status :: string
  shippingName :: string
  createdAt :: string
  checklistJson :: string
  currentOperator :: "StaffMember option"
  shippingAddress1 :: "string option"
  shippingAddress2 :: "string option"
  shippingCity :: "string option"
  shippingProvince :: "string option"
  shippingZip :: "string option"
  shippingPhone :: "string option"
  isPaused :: bool
  inExceptionPool :: bool
  exceptionReason :: "string option"
  exceptionLoggedAt :: "string option"
  exceptionNotes :: "string option"
  lastModifiedAt :: "string option"

datatype TaskStatus =
  PENDING | PICKING | PACKED | INSPECTING | CORRECTION_NEEDED | CORRECTING | COMPLETED | CANCELLED

text \<open>The string value of each member of the TypeScript string enum.\<close>

fun status_value :: "TaskStatus \<Rightarrow> string" where
  "status_value PENDING = ''Pending''"
| "status_value PICKING = ''Picking''"
| "status_value PACKED = ''Packed''"
| "status_value INSPECTING = ''Inspecting''"
| "status_value CORRECTION_NEEDED = ''Correction_Needed''"
| "status_value CORRECTING = ''Correcting''"
| "status_value COMPLETED = ''Completed''"
| "status_value CANCELLED = ''Cancelled''"

datatype TaskAction =
  START_PICKING | START_PACKING | START_INSPECTION | COMPLETE_INSPECTION | ENTER_CORRECTION
  | START_CORRECTION | RESOLVE_CORRECTION | LABEL_CREATED | REPORT_EXCEPTION | PAUSE_TASK
  | RESUME_TASK | CANCEL_TASK

fun action_value :: "TaskAction \<Rightarrow> string" where
  "action_value START_PICKING = ''START_PICKING''"
| "action_value START_PACKING = ''START_PACKING''"
| "action_value START_INSPECTION = ''START_INSPECTION''"
| "action_value COMPLETE_INSPECTION = ''COMPLETE_INSPECTION''"
| "action_value ENTER_CORRECTION = ''ENTER_CORRECTION''"
| "action_value START_CORRECTION = ''START_CORRECTION''"
| "action_value RESOLVE_CORRECTION = ''RESOLVE_CORRECTION''"
| "action_value LABEL_CREATED = ''LABEL_CREATED''"
| "action_value REPORT_EXCEPTION = ''REPORT_EXCEPTION''"
| "action_value PAUSE_TASK = ''PAUSE_TASK''"
| "action_value RESUME_TASK = ''RESUME_TASK''"
| "action_value CANCEL_TASK = ''CANCEL_TASK''"

section \<open>The remote store (Airtable), an external collaborator\<close>

text \<open>
  The service talks to three tables of a hosted store. A row of the Tasks table has the
  columns the service reads or writes, each possibly empty. The column
  \<^verbatim>\<open>current_operator\<close> is read both as a plain value and as a list of references.
\<close>

datatype operator_cell = Scalar string | RefList "string list"

record task_row =
  row_id :: string
  order_name :: "string option"
  status_col :: "string option"
  shipping_name :: "string option"
  created_at :: "string option"
  checklist_json :: "string option"
  current_operator :: "operator_cell option"
  shipping_address1 :: "string option"
  shipping_address2 :: "string option"
  shipping_city :: "string option"
  shipping_province :: "string option"
  shipping_zip :: "string option"
  shipping_phone :: "string option"
  is_paused :: "bool option"
  in_exception_pool :: "bool option"
  exception_reason :: "string option"
  exception_logged_at :: "string option"
  exception_notes :: "string option"
  updated_at :: "string option"
  started_at :: "string option"
  picked_at :: "string option"
  start_inspection_at :: "string option"
  completed_at :: "string option"
  return_to_pending_at :: "string option"

record staff_row =
  staff_rec_id :: string
  staff_id :: "string option"
  name :: "string option"
  is_active :: "bool option"

text \<open>
  The result of indexing an object literal with a key, as in
  \<^verbatim>\<open>actionMappings[actionType]\<close>: the literal's own string, or, for a key the literal
  does not have but \<^verbatim>\<open>Object.prototype\<close> has, the inherited member (a function or
  object, which is truthy and is no string).
\<close>

datatype js_member = Str string | Inherited string

record audit_row =
  timestamp :: string
  task_id :: string
  action_type :: js_member
  details :: string
  staff_link :: "string list option"
  old_value :: "string option"
  new_value :: "string option"

text \<open>
  The state a request runs against: the three tables, the outcome of the coming remote
  calls, and the JavaScript runtime. Every remote call may fail (network, rate limit):
  for each kind of call the store holds a schedule, whose head says whether the next call
  of that kind fails; an exhausted schedule means no further failure. The kinds are:
  \<open>find\<close>, \<open>update\<close> and \<open>select\<close> on Tasks (\<open>find_faults\<close>, \<open>update_faults\<close>,
  \<open>select_faults\<close>); \<open>select\<close> on Staff (\<open>staff_faults\<close>), \<open>find\<close> on Staff
  (\<open>staff_find_faults\<close>) and the writes \<open>create\<close>, \<open>update\<close> and \<open>destroy\<close> on Staff
  (\<open>staff_write_faults\<close>); \<open>create\<close> and \<open>select\<close> on the audit log (\<open>audit_faults\<close>,
  \<open>audit_select_faults\<close>).

  Of the runtime: \<open>now\<close> is what \<^verbatim>\<open>new Date().toISOString()\<close> returns and \<open>now_millis\<close>
  what \<^verbatim>\<open>Date.now()\<close> returns (one instant for the whole request); \<open>date_parse s\<close> is
  the ISO rendering of \<^verbatim>\<open>new Date(s)\<close>, or \<open>None\<close> when that is an Invalid Date;
  \<open>header_ok v\<close> says whether \<^verbatim>\<open>res.setHeader\<close> accepts \<open>v\<close> as a header value (it
  throws on a value with a character that is illegal in a header). Of the store's own
  behaviour: \<open>next_rec_id\<close> numbers the record the store creates next, and
  \<open>timestamp_le\<close> is the order in which a \<open>select\<close> sorted by \<^verbatim>\<open>timestamp\<close> returns
  the audit rows. Console output is not part of the model.
\<close>

record store =
  tasks :: "task_row list"
  staff :: "staff_row list"
  audit_log :: "audit_row list"
  find_faults :: "bool list"
  update_faults :: "bool list"
  select_faults :: "bool list"
  staff_faults :: "bool list"
  staff_find_faults :: "bool list"
  staff_write_faults :: "bool list"
  audit_faults :: "bool list"
  audit_select_faults :: "bool list"
  now :: string
  now_millis :: nat
  date_parse :: "string \<Rightarrow> string option"
  header_ok :: "string \<Rightarrow> bool"
  next_rec_id :: nat
  timestamp_le :: "string \<Rightarrow> string \<Rightarrow> bool"

fun pop :: "bool list \<Rightarrow> bool \<times> bool list" where
  "pop [] = (False, [])"
| "pop (b # bs) = (b, bs)"

text \<open>Decimal rendering of a number, as \<^verbatim>\<open>toString\<close> and a template literal print it.\<close>

fun digits :: "nat \<Rightarrow> nat \<Rightarrow> string" where
  "digits 0 n = []"
| "digits (Suc fuel) n =
     (if n < 10 then [char_of (48 + n)]
      else digits fuel (n div 10) @ [char_of (48 + n mod 10)])"

definition show_nat :: "nat \<Rightarrow> string" where
  "show_nat n = digits (Suc n) n"

text \<open>
  \<^verbatim>\<open>base('Tasks').find(id)\<close>: the row with that identifier; the call rejects (\<open>None\<close>)
  when the row is absent or the call fails.
\<close>

definition tasks_table_find :: "store \<Rightarrow> string \<Rightarrow> task_row option \<times> store" where
  "tasks_table_find w tid =
     (let (bad, rest) = pop (find_faults w); w' = w\<lparr>find_faults := rest\<rparr>
      in (if bad then None else find (\<lambda>r. row_id r = tid) (tasks w), w'))"

text \<open>
  \<^verbatim>\<open>base('Tasks').update(id, fields)\<close>: writes the given columns into the row and returns
  the row as stored; rejects when the row is absent or the call fails. The written
  columns are given as the function that sets them.
\<close>

definition tasks_table_update ::
  "store \<Rightarrow> string \<Rightarrow> (task_row \<Rightarrow> task_row) \<Rightarrow> task_row option \<times> store" where
  "tasks_table_update w tid upd =
     (let (bad, rest) = pop (update_faults w); w' = w\<lparr>update_faults := rest\<rparr>
      in if bad then (None, w')
         else (case find (\<lambda>r. row_id r = tid) (tasks w) of
                 None \<Rightarrow> (None, w')
               | Some r \<Rightarrow>
                   (Some (upd r),
                    w'\<lparr>tasks := map (\<lambda>x. if row_id x = tid then upd x else x) (tasks w)\<rparr>)))"

text \<open>\<^verbatim>\<open>base('Tasks').select({view, sort}).all()\<close>: every row, in the order the store returns.\<close>

definition tasks_table_select :: "store \<Rightarrow> task_row list option \<times> store" where
  "tasks_table_select w =
     (let (bad, rest) = pop (select_faults w); w' = w\<lparr>select_faults := rest\<rparr>
      in (if bad then None else Some (tasks w), w'))"

text \<open>
  \<^verbatim>\<open>base('Staff').select({filterByFormula: `{staff_id} = '${v}'`}).all()\<close>: the staff rows
  whose \<^verbatim>\<open>staff_id\<close> column is \<open>v\<close>. The formula is taken as the comparison it spells for
  an identifier \<open>v\<close> without quote characters; the store's formula syntax is not modelled.
\<close>

definition staff_table_select :: "store \<Rightarrow> string \<Rightarrow> staff_row list option \<times> store" where
  "staff_table_select w v =
     (let (bad, rest) = pop (staff_faults w); w' = w\<lparr>staff_faults := rest\<rparr>
      in (if bad then None else Some (filter (\<lambda>r. staff_id r = Some v) (staff w)), w'))"

text \<open>\<^verbatim>\<open>base('Audit_Log').create(fields)\<close>: appends a row; \<open>False\<close> when the call rejects.\<close>

definition audit_table_create :: "store \<Rightarrow> audit_row \<Rightarrow> bool \<times> store" where
  "audit_table_create w a =
     (let (bad, rest) = pop (audit_faults w); w' = w\<lparr>audit_faults := rest\<rparr>
      in if bad then (False, w') else (True, w'\<lparr>audit_log := audit_log w @ [a]\<rparr>))"

text \<open>\<^verbatim>\<open>base('Staff').select().all()\<close>: every staff row.\<close>

definition staff_table_select_all :: "store \<Rightarrow> staff_row list option \<times> store" where
  "staff_table_select_all w =
     (let (bad, rest) = pop (staff_faults w); w' = w\<lparr>staff_faults := rest\<rparr>
      in (if bad then None else Some (staff w), w'))"

text \<open>
  \<^verbatim>\<open>base('Staff').find(recordId)\<close>: the staff row with that record identifier; rejects
  when there is none or the call fails.
\<close>

definition staff_table_find :: "store \<Rightarrow> string \<Rightarrow> staff_row option \<times> store" where
  "staff_table_find w rid =
     (let (bad, rest) = pop (staff_find_faults w); w' = w\<lparr>staff_find_faults := rest\<rparr>
      in (if bad then None else find (\<lambda>r. staff_rec_id r = rid) (staff w), w'))"

text \<open>
  \<^verbatim>\<open>base('Staff').create(fields)\<close>: the store assigns the record identifier and appends
  the row, which it returns. The columns are given as the function that builds the row
  from the assigned identifier.
\<close>

definition staff_table_create :: "store \<Rightarrow> (string \<Rightarrow> staff_row) \<Rightarrow> staff_row option \<times> store" where
  "staff_table_create w columns =
     (let (bad, rest) = pop (staff_write_faults w); w' = w\<lparr>staff_write_faults := rest\<rparr>
      in if bad then (None, w')
         else (let r = columns (''rec'' @ show_nat (next_rec_id w))
               in (Some r, w'\<lparr>staff := staff w @ [r], next_rec_id := Suc (next_rec_id w)\<rparr>)))"

text \<open>\<^verbatim>\<open>base('Staff').update(recordId, fields)\<close> and \<^verbatim>\<open>base('Staff').destroy(recordId)\<close>.\<close>

definition staff_table_update ::
  "store \<Rightarrow> string \<Rightarrow> (staff_row \<Rightarrow> staff_row) \<Rightarrow> staff_row option \<times> store" where
  "staff_table_update w rid upd =
     (let (bad, rest) = pop (staff_write_faults w); w' = w\<lparr>staff_write_faults := rest\<rparr>
      in if bad then (None, w')
         else (case find (\<lambda>r. staff_rec_id r = rid) (staff w) of
                 None \<Rightarrow> (None, w')
               | Some r \<Rightarrow>
                   (Some (upd r),
                    w'\<lparr>staff := map (\<lambda>x. if staff_rec_id x = rid then upd x else x) (staff w)\<rparr>)))"

definition staff_table_destroy :: "store \<Rightarrow> string \<Rightarrow> bool \<times> store" where
  "staff_table_destroy w rid =
     (let (bad, rest) = pop (staff_write_faults w); w' = w\<lparr>staff_write_faults := rest\<rparr>
      in if bad then (False, w')
         else (case find (\<lambda>r. staff_rec_id r = rid) (staff w) of
                 None \<Rightarrow> (False, w')
               | Some r \<Rightarrow> (True, w'\<lparr>staff := filter (\<lambda>x. staff_rec_id x \<noteq> rid) (staff w)\<rparr>)))"

text \<open>
  \<^verbatim>\<open>base('Audit_Log').select({filterByFormula: `{task_id} = '${t}'`, sort: [{field:
  'timestamp', direction: 'asc'}]}).all()\<close>: the audit rows of task \<open>t\<close>, in ascending
  order of their timestamps (the order is the store's; rows of equal rank keep the order
  of the table). The model keeps no record identifier for an audit row: a row is
  identified by its position in the table, to which rows are only ever appended.
\<close>

fun insert_by :: "('a \<Rightarrow> 'a \<Rightarrow> bool) \<Rightarrow> 'a \<Rightarrow> 'a list \<Rightarrow> 'a list" where
  "insert_by le x [] = [x]"
| "insert_by le x (y # ys) = (if le x y then x # y # ys else y # insert_by le x ys)"

definition sort_by :: "('a \<Rightarrow> 'a \<Rightarrow> bool) \<Rightarrow> 'a list \<Rightarrow> 'a list" where
  "sort_by le xs = foldr (insert_by le) xs []"

definition audit_table_select :: "store \<Rightarrow> string \<Rightarrow> (nat \<times> audit_row) list option \<times> store" where
  "audit_table_select w t =
     (let (bad, rest) = pop (audit_select_faults w); w' = w\<lparr>audit_select_faults := rest\<rparr>
      in (if bad then None
          else Some (sort_by (\<lambda>a b. timestamp_le w (timestamp (snd a)) (timestamp (snd b)))
                       (filter (\<lambda>a. task_id (snd a) = t) (enumerate 0 (audit_log w)))),
          w'))"

section \<open>JavaScript values\<close>

text \<open>Truthiness of an optional string: \<^verbatim>\<open>undefined\<close> and the empty string are falsy.\<close>

fun truthy :: "string option \<Rightarrow> bool" where
  "truthy None = False"
| "truthy (Some s) = (s \<noteq> [])"

text \<open>\<^verbatim>\<open>x || d\<close> and \<^verbatim>\<open>x || undefined\<close> on an optional string.\<close>

definition or_default :: "string option \<Rightarrow> string \<Rightarrow> string" where
  "or_default x d = (case x of None \<Rightarrow> d | Some s \<Rightarrow> if s = [] then d else s)"

definition or_undefined :: "string option \<Rightarrow> string option" where
  "or_undefined x = (if truthy x then x else None)"

text \<open>\<^verbatim>\<open>x as boolean || false\<close> on an optional boolean.\<close>

definition or_false :: "bool option \<Rightarrow> bool" where
  "or_false x = (case x of None \<Rightarrow> False | Some b \<Rightarrow> b)"

text \<open>An optional string inside a template literal: \<^verbatim>\<open>undefined\<close> prints as such.\<close>

definition template :: "string option \<Rightarrow> string" where
  "template x = (case x of None \<Rightarrow> ''undefined'' | Some s \<Rightarrow> s)"

text \<open>
  The raw operator cell: a string is truthy unless empty, an array always. Inside a
  template literal an array prints as its elements joined by commas, so a one-element
  list prints as its element.
\<close>

fun cell_truthy :: "operator_cell \<Rightarrow> bool" where
  "cell_truthy (Scalar s) = (s \<noteq> [])"
| "cell_truthy (RefList xs) = True"

fun join_comma :: "string list \<Rightarrow> string" where
  "join_comma [] = []"
| "join_comma [x] = x"
| "join_comma (x # y # ys) = x @ '','' @ join_comma (y # ys)"

fun cell_string :: "operator_cell \<Rightarrow> string" where
  "cell_string (Scalar s) = s"
| "cell_string (RefList xs) = join_comma xs"

text \<open>
  \<^verbatim>\<open>new Date(raw).toISOString()\<close>: throws a RangeError on an Invalid Date (\<open>Inl\<close>).
\<close>

definition toISOString :: "store \<Rightarrow> string \<Rightarrow> string + string" where
  "toISOString w raw =
     (case date_parse w raw of
        None \<Rightarrow> Inl ''RangeError: Invalid time value''
      | Some d \<Rightarrow> Inr d)"

section \<open>Record mapper (AirtableService)\<close>

text \<open>
  \<open>getOperatorFromStaffId\<close>: the first staff row with that \<^verbatim>\<open>staff_id\<close>; a failed
  call is caught and gives \<^verbatim>\<open>undefined\<close>, like an empty result.
\<close>

definition getOperatorFromStaffId :: "store \<Rightarrow> string \<Rightarrow> StaffMember option \<times> store" where
  "getOperatorFromStaffId w staffId =
     (case staff_table_select w staffId of
        (None, w') \<Rightarrow> (None, w')
      | (Some [], w') \<Rightarrow> (None, w')
      | (Some (r # _), w') \<Rightarrow> (Some \<lparr>id_sm = staff_id r, name_sm = name r\<rparr>, w'))"

text \<open>
  The creation timestamp of \<open>mapTaskRecord\<close>: a falsy raw value gives the current time,
  and so does a raw value whose conversion throws (the \<^verbatim>\<open>catch\<close> branch).
\<close>

definition createdAtISO :: "store \<Rightarrow> string option \<Rightarrow> string" where
  "createdAtISO w createdAtRaw =
     (if truthy createdAtRaw
      then (case toISOString w (the createdAtRaw) of
              Inr d \<Rightarrow> d
            | Inl err \<Rightarrow> now w)
      else now w)"

definition mapTaskRecord :: "store \<Rightarrow> task_row \<Rightarrow> FulfillmentTask \<times> store" where
  "mapTaskRecord w r =
     (let (operator, w') =
            (case current_operator r of
               None \<Rightarrow> (None, w)
             | Some raw \<Rightarrow>
                 if cell_truthy raw then getOperatorFromStaffId w (cell_string raw)
                 else (None, w))
      in (\<lparr>id_ft = row_id r,
           orderName = or_default (order_name r) [],
           status = or_default (status_col r) (status_value PENDING),
           shippingName = or_default (shipping_name r) [],
           createdAt = createdAtISO w (created_at r),
           checklistJson = or_default (checklist_json r) ''[]'',
           currentOperator = operator,
           shippingAddress1 = or_undefined (shipping_address1 r),
           shippingAddress2 = or_undefined (shipping_address2 r),
           shippingCity = or_undefined (shipping_city r),
           shippingProvince = or_undefined (shipping_province r),
           shippingZip = or_undefined (shipping_zip r),
           shippingPhone = or_undefined (shipping_phone r),
           isPaused = or_false (is_paused r),
           inExceptionPool = or_false (in_exception_pool r),
           exceptionReason = or_undefined (exception_reason r),
           exceptionLoggedAt = or_undefined (exception_logged_at r),
           exceptionNotes = or_undefined (exception_notes r),
           lastModifiedAt = updated_at r\<rparr>, w'))"

text \<open>
  \<open>mapTaskRecordLegacy\<close> takes the first element of an array cell explicitly
  (\<^verbatim>\<open>undefined\<close> for an empty array) and normalises \<^verbatim>\<open>updated_at\<close> as a date.
\<close>

fun legacy_staffId :: "operator_cell \<Rightarrow> string" where
  "legacy_staffId (RefList []) = ''undefined''"
| "legacy_staffId (RefList (x # xs)) = x"
| "legacy_staffId (Scalar s) = s"

definition lastModifiedAtISO :: "store \<Rightarrow> string option \<Rightarrow> string option" where
  "lastModifiedAtISO w updatedAtRaw =
     (if truthy updatedAtRaw
      then (case toISOString w (the updatedAtRaw) of
              Inr d \<Rightarrow> Some d
            | Inl err \<Rightarrow> Some (now w))
      else None)"

definition mapTaskRecordLegacy :: "store \<Rightarrow> task_row \<Rightarrow> FulfillmentTask \<times> store" where
  "mapTaskRecordLegacy w r =
     (let (operator, w') =
            (case current_operator r of
               None \<Rightarrow> (None, w)
             | Some raw \<Rightarrow>
                 if cell_truthy raw then getOperatorFromStaffId w (legacy_staffId raw)
                 else (None, w))
      in (\<lparr>id_ft = row_id r,
           orderName = or_default (order_name r) [],
           status = or_default (status_col r) (status_value PENDING),
           shippingName = or_default (shipping_name r) [],
           createdAt = createdAtISO w (created_at r),
           checklistJson = or_default (checklist_json r) ''[]'',
           currentOperator = operator,
           shippingAddress1 = or_undefined (shipping_address1 r),
           shippingAddress2 = or_undefined (shipping_address2 r),
           shippingCity = or_undefined (shipping_city r),
           shippingProvince = or_undefined (shipping_province r),
           shippingZip = or_undefined (shipping_zip r),
           shippingPhone = or_undefined (shipping_phone r),
           isPaused = or_false (is_paused r),
           inExceptionPool = or_false (in_exception_pool r),
           exceptionReason = or_undefined (exception_reason r),
           exceptionLoggedAt = or_undefined (exception_logged_at r),
           exceptionNotes = or_undefined (exception_notes r),
           lastModifiedAt = lastModifiedAtISO w (updated_at r)\<rparr>, w'))"

section \<open>Task and staff look-ups\<close>

text \<open>\<open>getTaskById\<close> catches every failure of the look-up and returns \<^verbatim>\<open>null\<close>.\<close>

definition getTaskById :: "store \<Rightarrow> string \<Rightarrow> FulfillmentTask option \<times> store" where
  "getTaskById w taskId =
     (case tasks_table_find w taskId of
        (None, w1) \<Rightarrow> (None, w1)
      | (Some r, w1) \<Rightarrow> (case mapTaskRecord w1 r of (t, w2) \<Rightarrow> (Some t, w2)))"

definition getStaffById :: "store \<Rightarrow> string \<Rightarrow> StaffMember option \<times> store" where
  "getStaffById w staffId =
     (case staff_table_select w staffId of
        (None, w') \<Rightarrow> (None, w')
      | (Some [], w') \<Rightarrow> (None, w')
      | (Some (r # _), w') \<Rightarrow> (Some \<lparr>id_sm = staff_id r, name_sm = name r\<rparr>, w'))"

definition getStaffRecordId :: "store \<Rightarrow> string \<Rightarrow> string option \<times> store" where
  "getStaffRecordId w staffId =
     (case staff_table_select w staffId of
        (None, w') \<Rightarrow> (None, w')
      | (Some [], w') \<Rightarrow> (None, w')
      | (Some (r # _), w') \<Rightarrow> (Some (staff_rec_id r), w'))"

section \<open>Audit log\<close>

text \<open>
  \<^verbatim>\<open>String.prototype.trim\<close>, on the ASCII white space characters (the Unicode spaces
  beyond ASCII are not modelled).
\<close>

definition is_space :: "char \<Rightarrow> bool" where
  "is_space c = (c \<in> set [CHR '' '', CHR 0x09, CHR 0x0A, CHR 0x0B, CHR 0x0C, CHR 0x0D])"

definition trim :: "string \<Rightarrow> string" where
  "trim s = rev (dropWhile is_space (rev (dropWhile is_space s)))"

definition getActionTypeForStatus :: "TaskStatus \<Rightarrow> string" where
  "getActionTypeForStatus st =
     (case st of
        PICKING \<Rightarrow> ''START_PICKING''
      | PACKED \<Rightarrow> ''START_PACKING''
      | INSPECTING \<Rightarrow> ''START_INSPECTION''
      | COMPLETED \<Rightarrow> ''COMPLETE_INSPECTION''
      | CANCELLED \<Rightarrow> ''CANCEL_TASK''
      | CORRECTION_NEEDED \<Rightarrow> ''ENTER_CORRECTION''
      | CORRECTING \<Rightarrow> ''START_CORRECTION''
      | PENDING \<Rightarrow> ''FIELD_UPDATED'')"

text \<open>
  \<^verbatim>\<open>literal[key] || d\<close> for an object literal with string values: the literal's own
  value when it has the key; otherwise the member of that name inherited from
  \<^verbatim>\<open>Object.prototype\<close>, if there is one; otherwise the default.
\<close>

definition object_prototype_keys :: "string list" where
  "object_prototype_keys =
     [''constructor'', ''__defineGetter__'', ''__defineSetter__'', ''hasOwnProperty'',
      ''__lookupGetter__'', ''__lookupSetter__'', ''isPrototypeOf'', ''propertyIsEnumerable'',
      ''toString'', ''valueOf'', ''__proto__'', ''toLocaleString'']"

definition member_or :: "(string \<times> string) list \<Rightarrow> string \<Rightarrow> string \<Rightarrow> js_member" where
  "member_or literal key d =
     (case map_of literal key of
        Some v \<Rightarrow> Str (or_default (Some v) d)
      | None \<Rightarrow> if key \<in> set object_prototype_keys then Inherited key else Str d)"

text \<open>The table of \<open>mapActionType\<close>.\<close>

definition actionMappings :: "(string \<times> string) list" where
  "actionMappings =
     [(''START_PICKING'', ''Task_Started''),
      (''START_PACKING'', ''Packing_Started''),
      (''START_INSPECTION'', ''Inspection_Started''),
      (''COMPLETE_INSPECTION'', ''Task_Completed''),
      (''ENTER_CORRECTION'', ''Inspection_Failed''),
      (''START_CORRECTION'', ''Correction_Started''),
      (''RESOLVE_CORRECTION'', ''Correction_Completed''),
      (''LABEL_CREATED'', ''Other_Actions''),
      (''REPORT_EXCEPTION'', ''Exception_Logged''),
      (''PAUSE_TASK'', ''Task_Paused''),
      (''RESUME_TASK'', ''Task_Resumed''),
      (''CANCEL_TASK'', ''Task_Auto_Cancelled''),
      (''INSPECTION_PASSED'', ''Task_Completed''),
      (''INSPECTION_FAILED'', ''Inspection_Failed''),
      (''TASK_PAUSED'', ''Task_Paused''),
      (''CORRECTION_STARTED'', ''Correction_Started''),
      (''TASK_COMPLETED'', ''Task_Completed''),
      (''status_change'', ''Other_Actions''),
      (''checklist_update'', ''Other_Actions'')]"

definition mapActionType :: "string \<Rightarrow> js_member" where
  "mapActionType actionType = member_or actionMappings actionType ''Other_Actions''"

text \<open>
  The staff resolution at the head of \<open>logAction\<close>: the record identifier to link (if
  any) and the name to print. The look-ups catch their own failures.
\<close>

definition resolveStaff :: "store \<Rightarrow> string \<Rightarrow> (string option \<times> string) \<times> store" where
  "resolveStaff w operatorId =
     (if operatorId = ''unknown'' \<or> operatorId = []
      then ((None, ''Unknown Operator''), w)
      else (case getStaffById w operatorId of
              (None, w1) \<Rightarrow> ((None, ''Unknown ('' @ operatorId @ '')''), w1)
            | (Some staffMember, w1) \<Rightarrow>
                (case getStaffRecordId w1 operatorId of
                   (staffRecordId, w2) \<Rightarrow>
                     if \<not> truthy staffRecordId
                     then ((staffRecordId,
                            or_default (name_sm staffMember) (''Unknown ('' @ operatorId @ '')'')), w2)
                     else ((staffRecordId, template (name_sm staffMember)), w2))))"

text \<open>\<^verbatim>\<open>if (v && v.trim() !== '') fields.x = v.trim()\<close>\<close>

definition trimmed_value :: "string option \<Rightarrow> string option" where
  "trimmed_value v = (if truthy v \<and> trim (the v) \<noteq> [] then Some (trim (the v)) else None)"

definition auditFields ::
  "store \<Rightarrow> string option \<Rightarrow> string \<Rightarrow> string \<Rightarrow> string \<Rightarrow> string option \<Rightarrow> string option \<Rightarrow>
   string option \<Rightarrow> string option \<Rightarrow> audit_row" where
  "auditFields w staffRecordId staffName taskId actionType oldValue newValue detailsArg timestampArg =
     \<lparr>timestamp = or_default timestampArg (now w),
      task_id = taskId,
      action_type = mapActionType actionType,
      details = trim (actionType @ '': '' @ or_default detailsArg [] @ '' (by '' @ staffName @ '')''),
      staff_link = (if truthy staffRecordId then Some [the staffRecordId] else None),
      old_value = trimmed_value oldValue,
      new_value = trimmed_value newValue\<rparr>"

text \<open>
  \<open>logAction\<close> never throws: a failed \<^verbatim>\<open>create\<close> is caught and reported as \<open>False\<close>.
\<close>

definition logAction ::
  "store \<Rightarrow> string \<Rightarrow> string \<Rightarrow> string \<Rightarrow> string option \<Rightarrow> string option \<Rightarrow> string option \<Rightarrow>
   string option \<Rightarrow> bool \<times> store" where
  "logAction w operatorId taskId actionType oldValue newValue detailsArg timestampArg =
     (case resolveStaff w operatorId of
        ((staffRecordId, staffName), w1) \<Rightarrow>
          audit_table_create w1
            (auditFields w staffRecordId staffName taskId actionType oldValue newValue
               detailsArg timestampArg))"

section \<open>Task mutations\<close>

text \<open>
  A thrown \<^verbatim>\<open>Error(msg)\<close> is \<open>Inl msg\<close>. \<open>atomicTaskOperation\<close> writes the audit row first
  and the task second; the message of the store's own error, which the source appends to
  its message, is not modelled.
\<close>

definition atomicTaskOperation ::
  "store \<Rightarrow> string \<Rightarrow> string \<Rightarrow> string \<Rightarrow> (task_row \<Rightarrow> task_row) \<Rightarrow> string option \<Rightarrow>
   string option \<Rightarrow> string option \<Rightarrow> (string + FulfillmentTask \<times> bool) \<times> store" where
  "atomicTaskOperation w taskId operatorId actionType taskUpdate oldValue newValue detailsArg =
     (case logAction w operatorId taskId actionType oldValue newValue detailsArg None of
        (success, w1) \<Rightarrow>
          (case tasks_table_update w1 taskId taskUpdate of
             (None, w2) \<Rightarrow> (Inl ''Failed to update task'', w2)
           | (Some r, w2) \<Rightarrow>
               (case mapTaskRecord w2 r of (updatedTask, w3) \<Rightarrow> (Inr (updatedTask, success), w3))))"

text \<open>The columns \<open>updateTaskStatus\<close> writes.\<close>

definition statusUpdateFields :: "string \<Rightarrow> TaskStatus \<Rightarrow> string option \<Rightarrow> task_row \<Rightarrow> task_row" where
  "statusUpdateFields nowISO st operatorId r =
     (let r1 = r\<lparr>status_col := Some (status_value st), updated_at := Some nowISO\<rparr>;
          r2 = (case st of
                  PICKING \<Rightarrow> r1\<lparr>started_at := Some nowISO\<rparr>
                | PACKED \<Rightarrow> r1\<lparr>picked_at := Some nowISO\<rparr>
                | INSPECTING \<Rightarrow> r1\<lparr>start_inspection_at := Some nowISO\<rparr>
                | COMPLETED \<Rightarrow> r1\<lparr>completed_at := Some nowISO\<rparr>
                | _ \<Rightarrow> r1)
      in if truthy operatorId
         then r2\<lparr>current_operator := Some (Scalar (the operatorId))\<rparr>
         else r2\<lparr>current_operator := Some (Scalar [])\<rparr>)"

definition updateTaskStatus ::
  "store \<Rightarrow> string \<Rightarrow> TaskStatus \<Rightarrow> string option \<Rightarrow> (string + FulfillmentTask option) \<times> store" where
  "updateTaskStatus w taskId st operatorId =
     (case getTaskById w taskId of
        (None, w1) \<Rightarrow> (Inr None, w1)
      | (Some currentTask, w1) \<Rightarrow>
          if truthy operatorId
          then (case atomicTaskOperation w1 taskId (the operatorId) (getActionTypeForStatus st)
                       (statusUpdateFields (now w) st operatorId)
                       (Some (status currentTask)) (Some (status_value st))
                       (Some (''Status updated from '' @ status currentTask @ '' to '' @ status_value st)) of
                  (Inl err, w2) \<Rightarrow> (Inl ''Failed to update task status'', w2)
                | (Inr (t, success), w2) \<Rightarrow> (Inr (Some t), w2))
          else (case tasks_table_update w1 taskId (statusUpdateFields (now w) st operatorId) of
                  (None, w2) \<Rightarrow> (Inl ''Failed to update task status'', w2)
                | (Some r, w2) \<Rightarrow> (case mapTaskRecord w2 r of (t, w3) \<Rightarrow> (Inr (Some t), w3))))"

definition pauseUpdateFields :: "string \<Rightarrow> task_row \<Rightarrow> task_row" where
  "pauseUpdateFields nowISO r =
     r\<lparr>is_paused := Some True, current_operator := Some (Scalar []), updated_at := Some nowISO\<rparr>"

definition pauseTask ::
  "store \<Rightarrow> string \<Rightarrow> string option \<Rightarrow> (string + FulfillmentTask option) \<times> store" where
  "pauseTask w taskId operatorId =
     (if truthy operatorId
      then (case getTaskById w taskId of
              (currentTask, w1) \<Rightarrow>
                (case atomicTaskOperation w1 taskId (the operatorId) ''PAUSE_TASK''
                        (pauseUpdateFields (now w))
                        (map_option status currentTask) (map_option status currentTask)
                        (Some ''Task paused by operator'') of
                   (Inl err, w2) \<Rightarrow> (Inl ''Failed to pause task'', w2)
                 | (Inr (t, success), w2) \<Rightarrow> (Inr (Some t), w2)))
      else (case tasks_table_update w taskId (pauseUpdateFields (now w)) of
              (None, w1) \<Rightarrow> (Inl ''Failed to pause task'', w1)
            | (Some r, w1) \<Rightarrow> (case mapTaskRecord w1 r of (t, w2) \<Rightarrow> (Inr (Some t), w2))))"

definition resumeUpdateFields :: "string \<Rightarrow> string \<Rightarrow> task_row \<Rightarrow> task_row" where
  "resumeUpdateFields nowISO operatorId r =
     (let r1 = r\<lparr>is_paused := Some False, updated_at := Some nowISO\<rparr>
      in if operatorId \<noteq> [] then r1\<lparr>current_operator := Some (Scalar operatorId)\<rparr> else r1)"

definition resumeTask ::
  "store \<Rightarrow> string \<Rightarrow> string \<Rightarrow> (string + FulfillmentTask option) \<times> store" where
  "resumeTask w taskId operatorId =
     (case getTaskById w taskId of
        (None, w1) \<Rightarrow> (Inr None, w1)
      | (Some currentTask, w1) \<Rightarrow>
          (case atomicTaskOperation w1 taskId operatorId ''RESUME_TASK''
                  (resumeUpdateFields (now w) operatorId)
                  (Some ''Paused'') (Some (status currentTask))
                  (Some (''Task resumed from '' @ status currentTask @ '' status'')) of
             (Inl err, w2) \<Rightarrow> (Inl ''Failed to resume task'', w2)
           | (Inr (t, success), w2) \<Rightarrow> (Inr (Some t), w2)))"

text \<open>\<open>moveTaskToExceptionPool\<close>, used by the issue report route.\<close>

definition exceptionUpdateFields :: "string \<Rightarrow> string \<Rightarrow> string \<Rightarrow> task_row \<Rightarrow> task_row" where
  "exceptionUpdateFields nowISO exceptionReasonArg description r =
     r\<lparr>status_col := Some (status_value PENDING),
       in_exception_pool := Some True,
       exception_reason := Some exceptionReasonArg,
       exception_notes := Some description,
       exception_logged_at := Some nowISO,
       current_operator := Some (Scalar []),
       return_to_pending_at := Some nowISO,
       updated_at := Some nowISO\<rparr>"

definition moveTaskToExceptionPool ::
  "store \<Rightarrow> string \<Rightarrow> string \<Rightarrow> string \<Rightarrow> string \<Rightarrow> (string + unit) \<times> store" where
  "moveTaskToExceptionPool w taskId exceptionReasonArg description reportingOperatorId =
     (case tasks_table_update w taskId (exceptionUpdateFields (now w) exceptionReasonArg description) of
        (None, w1) \<Rightarrow> (Inl ''Failed to move task to exception pool'', w1)
      | (Some r, w1) \<Rightarrow> (Inr (), w1))"

text \<open>\<open>updateTaskChecklist\<close>: the update is not preceded by a look-up.\<close>

definition checklistUpdateFields :: "string \<Rightarrow> string \<Rightarrow> task_row \<Rightarrow> task_row" where
  "checklistUpdateFields nowISO checklistJsonArg r =
     r\<lparr>checklist_json := Some checklistJsonArg, updated_at := Some nowISO\<rparr>"

definition updateTaskChecklist ::
  "store \<Rightarrow> string \<Rightarrow> string \<Rightarrow> (string + FulfillmentTask option) \<times> store" where
  "updateTaskChecklist w taskId checklistJsonArg =
     (case tasks_table_update w taskId (checklistUpdateFields (now w) checklistJsonArg) of
        (None, w1) \<Rightarrow> (Inl ''Failed to update task checklist'', w1)
      | (Some r, w1) \<Rightarrow> (case mapTaskRecord w1 r of (t, w2) \<Rightarrow> (Inr (Some t), w2)))"

section \<open>Staff operations\<close>

definition getAllStaffOptimized :: "store \<Rightarrow> (string + StaffMember list \<times> string) \<times> store" where
  "getAllStaffOptimized w =
     (case staff_table_select_all w of
        (None, w1) \<Rightarrow> (Inl ''Failed to fetch staff from Airtable'', w1)
      | (Some records, w1) \<Rightarrow>
          (Inr (map (\<lambda>r. \<lparr>id_sm = staff_id r, name_sm = name r\<rparr>) records, now w), w1))"

text \<open>
  The identifier \<open>createStaff\<close> generates when none is given: \<^verbatim>\<open>STAFF_\<close>, the
  upper-cased name with every run of white space replaced by one underscore, another
  underscore, and the last four digits of \<^verbatim>\<open>Date.now()\<close>. Upper-casing and white space
  are modelled on ASCII.
\<close>

definition toUpperCase :: "string \<Rightarrow> string" where
  "toUpperCase s =
     map (\<lambda>c. if 97 \<le> (of_char c :: nat) \<and> (of_char c :: nat) \<le> 122
              then char_of ((of_char c :: nat) - 32) else c) s"

fun replace_space_runs :: "bool \<Rightarrow> string \<Rightarrow> string" where
  "replace_space_runs inside [] = []"
| "replace_space_runs inside (c # cs) =
     (if is_space c
      then (if inside then replace_space_runs True cs else CHR ''_'' # replace_space_runs True cs)
      else c # replace_space_runs False cs)"

definition slice_last :: "nat \<Rightarrow> string \<Rightarrow> string" where
  "slice_last n s = drop (length s - n) s"

definition generatedStaffId :: "store \<Rightarrow> string \<Rightarrow> string" where
  "generatedStaffId w nameArg =
     ''STAFF_'' @ replace_space_runs False (toUpperCase nameArg) @ ''_''
       @ slice_last 4 (show_nat (now_millis w))"

definition createStaff :: "store \<Rightarrow> string \<Rightarrow> string option \<Rightarrow> (string + StaffMember) \<times> store" where
  "createStaff w nameArg staffId =
     (let sid = (if truthy staffId then the staffId else generatedStaffId w nameArg)
      in case staff_table_create w
                (\<lambda>rid. \<lparr>staff_rec_id = rid, staff_id = Some sid, name = Some nameArg,
                        is_active = Some True\<rparr>) of
           (None, w1) \<Rightarrow> (Inl ''Failed to create staff member'', w1)
         | (Some r, w1) \<Rightarrow> (Inr \<lparr>id_sm = staff_id r, name_sm = name r\<rparr>, w1))"

text \<open>\<open>updateStaff\<close> and \<open>deleteStaff\<close> catch every failure, of the look-up and of the write.\<close>

definition updateStaff :: "store \<Rightarrow> string \<Rightarrow> string \<Rightarrow> StaffMember option \<times> store" where
  "updateStaff w staffId nameArg =
     (case staff_table_select w staffId of
        (None, w1) \<Rightarrow> (None, w1)
      | (Some [], w1) \<Rightarrow> (None, w1)
      | (Some (r0 # _), w1) \<Rightarrow>
          (case staff_table_update w1 (staff_rec_id r0) (\<lambda>r. r\<lparr>name := Some nameArg\<rparr>) of
             (None, w2) \<Rightarrow> (None, w2)
           | (Some r, w2) \<Rightarrow> (Some \<lparr>id_sm = staff_id r, name_sm = name r\<rparr>, w2)))"

definition deleteStaff :: "store \<Rightarrow> string \<Rightarrow> bool \<times> store" where
  "deleteStaff w staffId =
     (case staff_table_select w staffId of
        (None, w1) \<Rightarrow> (False, w1)
      | (Some [], w1) \<Rightarrow> (False, w1)
      | (Some (r0 # _), w1) \<Rightarrow> staff_table_destroy w1 (staff_rec_id r0))"

section \<open>Work history\<close>

text \<open>
  What the store returns for a cell: nothing for an empty one. A member inherited from
  \<^verbatim>\<open>Object.prototype\<close> is no value the store keeps, so such a cell reads as empty.
\<close>

definition read_cell :: "string \<Rightarrow> string option" where
  "read_cell s = (if s = [] then None else Some s)"

definition read_member :: "js_member \<Rightarrow> string option" where
  "read_member m = (case m of Str s \<Rightarrow> read_cell s | Inherited k \<Rightarrow> None)"

text \<open>\<^verbatim>\<open>s.replace('_', ' ')\<close> replaces the first underscore only.\<close>

fun replace_first_underscore :: "string \<Rightarrow> string" where
  "replace_first_underscore [] = []"
| "replace_first_underscore (c # cs) =
     (if c = CHR ''_'' then CHR '' '' # cs else c # replace_first_underscore cs)"

definition displayMappings :: "(string \<times> string) list" where
  "displayMappings =
     [(''Task_Started'', ''Task Started''),
      (''Packing_Started'', ''Packing Completed''),
      (''Inspection_Started'', ''Inspection Started''),
      (''Task_Completed'', ''Task Completed''),
      (''Inspection_Failed'', ''Inspection Failed - Correction Required''),
      (''Correction_Started'', ''Correction Started''),
      (''Correction_Completed'', ''Task Completed via Correction''),
      (''Field_Updated'', ''Updated''),
      (''Exception_Logged'', ''Exception Reported''),
      (''Task_Paused'', ''Task Paused''),
      (''Task_Resumed'', ''Task Resumed''),
      (''Task_Auto_Cancelled'', ''Task Cancelled'')]"

text \<open>
  \<open>formatActionForDisplay\<close> is called with the cells as read, which may be
  \<^verbatim>\<open>undefined\<close> in spite of the cast: \<^verbatim>\<open>details.split\<close> and
  \<^verbatim>\<open>actionType.replace\<close> then throw a TypeError (\<open>Inl\<close>, message abbreviated).
\<close>

definition formatActionForDisplay :: "string option \<Rightarrow> string option \<Rightarrow> string + js_member" where
  "formatActionForDisplay actionType detailsArg =
     (case detailsArg of
        None \<Rightarrow> Inl ''TypeError: Cannot read properties of undefined''
      | Some d \<Rightarrow>
          (let originalAction = takeWhile (\<lambda>c. c \<noteq> CHR '':'') d
           in if originalAction \<noteq> [] \<and> Some originalAction \<noteq> actionType
              then Inr (member_or displayMappings originalAction
                          (replace_first_underscore originalAction))
              else (case actionType of
                      None \<Rightarrow> Inl ''TypeError: Cannot read properties of undefined''
                    | Some a \<Rightarrow> Inr (member_or displayMappings a (replace_first_underscore a)))))"

definition iconMappings :: "(string \<times> string) list" where
  "iconMappings =
     [(''Task_Started'', ''play.circle''),
      (''Packing_Started'', ''shippingbox''),
      (''Inspection_Started'', ''magnifyingglass''),
      (''Task_Completed'', ''checkmark.seal''),
      (''Inspection_Failed'', ''exclamationmark.triangle''),
      (''Correction_Started'', ''wrench''),
      (''Correction_Completed'', ''checkmark.circle.fill''),
      (''Field_Updated'', ''pencil''),
      (''Exception_Logged'', ''exclamationmark.circle''),
      (''Task_Paused'', ''pause.circle''),
      (''Task_Resumed'', ''play.circle''),
      (''Task_Auto_Cancelled'', ''xmark.circle'')]"

definition getActionIcon :: "string option \<Rightarrow> js_member" where
  "getActionIcon actionType = member_or iconMappings (template actionType) ''circle''"

record history_entry =
  h_id :: string
  h_timestamp :: "string option"
  h_action :: js_member
  h_operatorName :: string
  h_icon :: js_member
  h_details :: string

text \<open>
  One element of the history: the operator's name is looked up through the linked staff
  record (a failed look-up is caught and leaves \<^verbatim>\<open>Unknown\<close>); a throw of
  \<open>formatActionForDisplay\<close> rejects the element.
\<close>

definition audit_rec_id :: "nat \<Rightarrow> string" where
  "audit_rec_id i = ''recAudit'' @ show_nat i"

definition historyEntry :: "store \<Rightarrow> nat \<times> audit_row \<Rightarrow> (string + history_entry) \<times> store" where
  "historyEntry w audit_record =
     (let cells = snd audit_record;
          (operatorName, w1) =
            (case staff_link cells of
               Some (rid # _) \<Rightarrow>
                 (case staff_table_find w rid of
                    (None, w') \<Rightarrow> (''Unknown'', w')
                  | (Some staffRecord, w') \<Rightarrow> (or_default (name staffRecord) ''Unknown'', w'))
             | _ \<Rightarrow> (''Unknown'', w))
      in (case formatActionForDisplay (read_member (action_type cells)) (read_cell (details cells)) of
            Inl err \<Rightarrow> Inl err
          | Inr actionText \<Rightarrow>
              Inr \<lparr>h_id = audit_rec_id (fst audit_record),
                   h_timestamp = read_cell (timestamp cells),
                   h_action = actionText,
                   h_operatorName = operatorName,
                   h_icon = getActionIcon (read_member (action_type cells)),
                   h_details = or_default (read_cell (details cells)) []\<rparr>,
          w1))"

text \<open>
  \<^verbatim>\<open>Promise.all(records.map(async record => ...))\<close>: every element runs (here in the
  order of the rows), and the whole rejects when one of them does.
\<close>

fun historyEntries ::
  "store \<Rightarrow> (nat \<times> audit_row) list \<Rightarrow> (string + history_entry) list \<times> store" where
  "historyEntries w [] = ([], w)"
| "historyEntries w (r # rs) =
     (case historyEntry w r of
        (e, w1) \<Rightarrow> (case historyEntries w1 rs of (es, w2) \<Rightarrow> (e # es, w2)))"

fun promise_all :: "(string + 'a) list \<Rightarrow> string + 'a list" where
  "promise_all [] = Inr []"
| "promise_all (Inl err # rs) = Inl err"
| "promise_all (Inr x # rs) = (case promise_all rs of Inl err \<Rightarrow> Inl err | Inr xs \<Rightarrow> Inr (x # xs))"

definition getTaskWorkHistory :: "store \<Rightarrow> string \<Rightarrow> (string + history_entry list) \<times> store" where
  "getTaskWorkHistory w taskId =
     (case audit_table_select w taskId of
        (None, w1) \<Rightarrow> (Inl ''Failed to fetch task work history'', w1)
      | (Some records, w1) \<Rightarrow>
          (case historyEntries w1 records of
             (results, w2) \<Rightarrow>
               (case promise_all results of
                  Inl err \<Rightarrow> (Inl ''Failed to fetch task work history'', w2)
                | Inr history \<Rightarrow> (Inr history, w2))))"

section \<open>HTTP handlers\<close>

text \<open>The JSON envelope of the task routes, with the HTTP status code.\<close>

record response =
  res_code :: nat
  res_success :: bool
  res_data :: "FulfillmentTask option"
  res_error :: "string option"
  res_message :: "string option"

definition bad_request :: "string \<Rightarrow> response" where
  "bad_request e =
     \<lparr>res_code = 400, res_success = False, res_data = None, res_error = Some e, res_message = None\<rparr>"

definition not_found :: "string \<Rightarrow> response" where
  "not_found e =
     \<lparr>res_code = 404, res_success = False, res_data = None, res_error = Some e, res_message = None\<rparr>"

definition server_error :: "string \<Rightarrow> string \<Rightarrow> response" where
  "server_error e msg =
     \<lparr>res_code = 500, res_success = False, res_data = None, res_error = Some e,
      res_message = Some msg\<rparr>"

definition ok :: "FulfillmentTask \<Rightarrow> response" where
  "ok t =
     \<lparr>res_code = 200, res_success = True, res_data = Some t, res_error = None, res_message = None\<rparr>"

subsection \<open>GET /api/tasks/:id (src/routes/tasks.ts)\<close>

text \<open>
  The route writes the header \<^verbatim>\<open>X-Last-Modified\<close> from the task's \<open>lastModifiedAt\<close>,
  the raw \<^verbatim>\<open>updated_at\<close> cell, inside its \<^verbatim>\<open>try\<close>: when \<^verbatim>\<open>setHeader\<close> refuses the
  value, the \<^verbatim>\<open>catch\<close> answers 500. The header \<^verbatim>\<open>X-Server-Timestamp\<close> holds the
  runtime's own ISO timestamp, which is always accepted.
\<close>

definition get_task_handler :: "store \<Rightarrow> string \<Rightarrow> response \<times> store" where
  "get_task_handler w task_id_param =
     (case getTaskById w task_id_param of
        (None, w1) \<Rightarrow> (not_found ''Task not found'', w1)
      | (Some t, w1) \<Rightarrow>
          if header_ok w (or_default (lastModifiedAt t) ''unknown'')
          then (ok t, w1)
          else (server_error ''Failed to fetch task''
                  (''Invalid character in header content ['' @ [CHR 0x22] @ ''X-Last-Modified''
                     @ [CHR 0x22] @ '']''), w1))"

subsection \<open>GET /api/staff/:id (src/routes/staff.ts)\<close>

record staff_response =
  sres_code :: nat
  sres_success :: bool
  sres_data :: "StaffMember option"
  sres_error :: "string option"

definition get_staff_handler :: "store \<Rightarrow> string \<Rightarrow> staff_response \<times> store" where
  "get_staff_handler w staffId =
     (case getStaffById w staffId of
        (None, w1) \<Rightarrow>
          (\<lparr>sres_code = 404, sres_success = False, sres_data = None,
            sres_error = Some ''Staff member not found''\<rparr>, w1)
      | (Some s, w1) \<Rightarrow>
          (\<lparr>sres_code = 200, sres_success = True, sres_data = Some s, sres_error = None\<rparr>, w1))"

subsection \<open>POST /api/tasks/action (src/routes/tasks.ts)\<close>

record payload =
  weight :: "string option"
  dimensions :: "string option"
  errorType :: "string option"
  reason :: "string option"
  payload_notes :: "string option"

record action_request =
  req_task_id :: "string option"
  req_action :: "string option"
  req_operator_id :: "string option"
  req_payload :: "payload option"

text \<open>\<^verbatim>\<open>payload?.f\<close>\<close>

definition pget :: "payload option \<Rightarrow> (payload \<Rightarrow> string option) \<Rightarrow> string option" where
  "pget p f = (case p of None \<Rightarrow> None | Some q \<Rightarrow> f q)"

text \<open>The \<^verbatim>\<open>switch (action)\<close> compares the string with the members of the enum.\<close>

definition parse_action :: "string \<Rightarrow> TaskAction option" where
  "parse_action a =
     find (\<lambda>x. action_value x = a)
       [START_PICKING, START_PACKING, START_INSPECTION, COMPLETE_INSPECTION, ENTER_CORRECTION,
        START_CORRECTION, RESOLVE_CORRECTION, LABEL_CREATED, PAUSE_TASK, CANCEL_TASK,
        REPORT_EXCEPTION, RESUME_TASK]"

text \<open>
  The end of the handler: a thrown error is caught and answered with 500, a \<^verbatim>\<open>null\<close>
  task with 404, a task with the success envelope. The headers written before the
  success envelope hold the \<^verbatim>\<open>updated_at\<close> the update has just written, the current time
  and the action, a member of the enum: timestamps of the runtime and plain words, which
  \<^verbatim>\<open>setHeader\<close> accepts.
\<close>

definition finish :: "(string + FulfillmentTask option) \<times> store \<Rightarrow> response \<times> store" where
  "finish x =
     (case x of
        (Inl msg, w) \<Rightarrow> (server_error ''Failed to perform task action'' msg, w)
      | (Inr None, w) \<Rightarrow> (not_found ''Task not found or update failed'', w)
      | (Inr (Some t), w) \<Rightarrow> (ok t, w))"

text \<open>
  The branches START_PACKING, COMPLETE_INSPECTION, RESOLVE_CORRECTION, LABEL_CREATED and
  REPORT_EXCEPTION first update the task and then, when an operator is given (and, but for
  START_PACKING, the old status was read), log the action themselves.
\<close>

definition update_then_log ::
  "store \<Rightarrow> string \<Rightarrow> TaskStatus \<Rightarrow> string option \<Rightarrow> bool \<Rightarrow> string \<Rightarrow> string \<Rightarrow> string option \<Rightarrow>
   string \<Rightarrow> response \<times> store" where
  "update_then_log w tid st updateOperator doLog operatorId actionName oldStatus detailsText =
     (case updateTaskStatus w tid st updateOperator of
        (Inl msg, w1) \<Rightarrow> finish (Inl msg, w1)
      | (Inr updatedTask, w1) \<Rightarrow>
          if doLog
          then (case logAction w1 operatorId tid actionName oldStatus (Some (status_value st))
                       (Some detailsText) None of
                  (logged, w2) \<Rightarrow> finish (Inr updatedTask, w2))
          else finish (Inr updatedTask, w1))"

definition task_action_handler :: "store \<Rightarrow> action_request \<Rightarrow> response \<times> store" where
  "task_action_handler w req =
     (if \<not> truthy (req_task_id req) \<or> \<not> truthy (req_action req)
      then (bad_request ''Missing required fields: task_id and action'', w)
      else
        (let tid = the (req_task_id req);
             operator_id = req_operator_id req;
             pl = req_payload req
         in case parse_action (the (req_action req)) of
           Some START_PICKING \<Rightarrow> finish (updateTaskStatus w tid PICKING operator_id)
         | Some START_PACKING \<Rightarrow>
             if \<not> truthy (pget pl weight) \<or> \<not> truthy (pget pl dimensions)
             then (bad_request ''Weight and dimensions are required for starting packing'', w)
             else update_then_log w tid PACKED None (truthy operator_id) (the operator_id)
                    (action_value START_PACKING) (Some (status_value PICKING))
                    (''Started packing. Weight: '' @ template (pget pl weight)
                       @ '', Dimensions: '' @ template (pget pl dimensions))
         | Some START_INSPECTION \<Rightarrow> finish (updateTaskStatus w tid INSPECTING operator_id)
         | Some COMPLETE_INSPECTION \<Rightarrow>
             (case getTaskById w tid of
                (currentInspectionTask, w1) \<Rightarrow>
                  (let oldInspectionStatus = map_option status currentInspectionTask
                   in update_then_log w1 tid COMPLETED None
                        (truthy operator_id \<and> truthy oldInspectionStatus) (the operator_id)
                        (action_value COMPLETE_INSPECTION) oldInspectionStatus
                        ''Inspection completed successfully''))
         | Some ENTER_CORRECTION \<Rightarrow>
             if \<not> truthy (pget pl errorType)
             then (bad_request ''Error type is required for corrections'', w)
             else finish (updateTaskStatus w tid CORRECTION_NEEDED operator_id)
         | Some START_CORRECTION \<Rightarrow> finish (updateTaskStatus w tid CORRECTING operator_id)
         | Some RESOLVE_CORRECTION \<Rightarrow>
             (case getTaskById w tid of
                (currentCorrectionTask, w1) \<Rightarrow>
                  (let oldCorrectionStatus = map_option status currentCorrectionTask
                   in update_then_log w1 tid COMPLETED None
                        (truthy operator_id \<and> truthy oldCorrectionStatus) (the operator_id)
                        (action_value RESOLVE_CORRECTION) oldCorrectionStatus
                        ''Correction resolved and task completed''))
         | Some LABEL_CREATED \<Rightarrow>
             (case getTaskById w tid of
                (currentTask, w1) \<Rightarrow>
                  (let oldStatus = map_option status currentTask
                   in update_then_log w1 tid COMPLETED None
                        (truthy operator_id \<and> truthy oldStatus) (the operator_id)
                        (action_value LABEL_CREATED) oldStatus
                        ''New label printed. Task completed.''))
         | Some PAUSE_TASK \<Rightarrow> finish (pauseTask w tid operator_id)
         | Some CANCEL_TASK \<Rightarrow> finish (updateTaskStatus w tid CANCELLED operator_id)
         | Some REPORT_EXCEPTION \<Rightarrow>
             if \<not> truthy (pget pl reason)
             then (bad_request ''Exception reason is required'', w)
             else
               (case getTaskById w tid of
                  (currentExceptionTask, w1) \<Rightarrow>
                    (let oldExceptionStatus = map_option status currentExceptionTask
                     in update_then_log w1 tid PENDING operator_id
                          (truthy operator_id \<and> truthy oldExceptionStatus) (the operator_id)
                          (action_value REPORT_EXCEPTION) oldExceptionStatus
                          (''Exception reported: '' @ template (pget pl reason) @ '' - ''
                             @ or_default (pget pl payload_notes) [])))
         | Some RESUME_TASK \<Rightarrow>
             if \<not> truthy operator_id
             then (bad_request ''Operator ID is required for resuming tasks'', w)
             else finish (resumeTask w tid (the operator_id))
         | None \<Rightarrow> (bad_request (''Unknown action: '' @ the (req_action req)), w)))"


subsection \<open>PUT /api/tasks/:id/checklist and GET /api/tasks/:id/history (src/routes/tasks.ts)\<close>

definition checklist_handler :: "store \<Rightarrow> string \<Rightarrow> string option \<Rightarrow> response \<times> store" where
  "checklist_handler w task_id_param checklist_json_arg =
     (if \<not> truthy checklist_json_arg
      then (bad_request ''checklist_json is required'', w)
      else (case updateTaskChecklist w task_id_param (the checklist_json_arg) of
              (Inl msg, w1) \<Rightarrow> (server_error ''Failed to update checklist'' msg, w1)
            | (Inr None, w1) \<Rightarrow> (not_found ''Task not found'', w1)
            | (Inr (Some t), w1) \<Rightarrow> (ok t, w1)))"

text \<open>The JSON envelope of the other routes, with the HTTP status code.\<close>

record 'a reply =
  rep_code :: nat
  rep_success :: bool
  rep_data :: "'a option"
  rep_error :: "string option"
  rep_message :: "string option"

definition history_handler :: "store \<Rightarrow> string \<Rightarrow> history_entry list reply \<times> store" where
  "history_handler w task_id_param =
     (case getTaskWorkHistory w task_id_param of
        (Inl msg, w1) \<Rightarrow>
          (\<lparr>rep_code = 500, rep_success = False, rep_data = None,
            rep_error = Some ''Failed to fetch task history'', rep_message = Some msg\<rparr>, w1)
      | (Inr workHistory, w1) \<Rightarrow>
          (\<lparr>rep_code = 200, rep_success = True, rep_data = Some workHistory,
            rep_error = None, rep_message = None\<rparr>, w1))"

subsection \<open>The other staff routes (src/routes/staff.ts)\<close>

text \<open>GET /api/staff. The headers hold constants and timestamps of the runtime.\<close>

definition staff_list_handler :: "store \<Rightarrow> StaffMember list reply \<times> store" where
  "staff_list_handler w =
     (case getAllStaffOptimized w of
        (Inl msg, w1) \<Rightarrow>
          (\<lparr>rep_code = 500, rep_success = False, rep_data = None,
            rep_error = Some ''Failed to fetch staff'', rep_message = Some msg\<rparr>, w1)
      | (Inr (staffList, lastModified), w1) \<Rightarrow>
          (\<lparr>rep_code = 200, rep_success = True, rep_data = Some staffList,
            rep_error = None, rep_message = None\<rparr>, w1))"

text \<open>POST /api/staff/checkin. The staff member is looked up before the action is read.\<close>

record checkin_data =
  ci_staff :: StaffMember
  ci_action :: string
  ci_timestamp :: string
  ci_message :: string

definition checkin_handler ::
  "store \<Rightarrow> string option \<Rightarrow> string option \<Rightarrow> checkin_data reply \<times> store" where
  "checkin_handler w staffId actionArg =
     (if \<not> truthy staffId \<or> \<not> truthy actionArg
      then (\<lparr>rep_code = 400, rep_success = False, rep_data = None,
             rep_error = Some ''Missing required fields: staffId and action'',
             rep_message = None\<rparr>, w)
      else (case getStaffById w (the staffId) of
              (None, w1) \<Rightarrow>
                (\<lparr>rep_code = 404, rep_success = False, rep_data = None,
                  rep_error = Some ''Staff member not found'', rep_message = None\<rparr>, w1)
            | (Some s, w1) \<Rightarrow>
                if the actionArg = ''CHECK_IN''
                then (\<lparr>rep_code = 200, rep_success = True,
                       rep_data = Some \<lparr>ci_staff = s, ci_action = ''CHECK_IN'', ci_timestamp = now w,
                                        ci_message = template (name_sm s) @ '' checked in successfully''\<rparr>,
                       rep_error = None, rep_message = None\<rparr>, w1)
                else if the actionArg = ''CHECK_OUT''
                then (\<lparr>rep_code = 200, rep_success = True,
                       rep_data = Some \<lparr>ci_staff = s, ci_action = ''CHECK_OUT'', ci_timestamp = now w,
                                        ci_message = template (name_sm s) @ '' checked out successfully''\<rparr>,
                       rep_error = None, rep_message = None\<rparr>, w1)
                else (\<lparr>rep_code = 400, rep_success = False, rep_data = None,
                       rep_error = Some (''Unknown check-in action: '' @ the actionArg),
                       rep_message = None\<rparr>, w1)))"

text \<open>POST /api/staff, PUT /api/staff/:id and DELETE /api/staff/:id.\<close>

definition create_staff_handler ::
  "store \<Rightarrow> string option \<Rightarrow> string option \<Rightarrow> StaffMember reply \<times> store" where
  "create_staff_handler w nameArg staff_id_arg =
     (if \<not> truthy nameArg
      then (\<lparr>rep_code = 400, rep_success = False, rep_data = None,
             rep_error = Some ''Staff name is required'', rep_message = None\<rparr>, w)
      else (case createStaff w (the nameArg) staff_id_arg of
              (Inl msg, w1) \<Rightarrow>
                (\<lparr>rep_code = 500, rep_success = False, rep_data = None,
                  rep_error = Some ''Failed to create staff member'', rep_message = Some msg\<rparr>, w1)
            | (Inr newStaff, w1) \<Rightarrow>
                (\<lparr>rep_code = 201, rep_success = True, rep_data = Some newStaff,
                  rep_error = None, rep_message = None\<rparr>, w1)))"

definition update_staff_handler ::
  "store \<Rightarrow> string \<Rightarrow> string option \<Rightarrow> StaffMember reply \<times> store" where
  "update_staff_handler w staffId nameArg =
     (if \<not> truthy nameArg
      then (\<lparr>rep_code = 400, rep_success = False, rep_data = None,
             rep_error = Some ''Staff name is required'', rep_message = None\<rparr>, w)
      else (case updateStaff w staffId (the nameArg) of
              (None, w1) \<Rightarrow>
                (\<lparr>rep_code = 404, rep_success = False, rep_data = None,
                  rep_error = Some ''Staff member not found'', rep_message = None\<rparr>, w1)
            | (Some updatedStaff, w1) \<Rightarrow>
                (\<lparr>rep_code = 200, rep_success = True, rep_data = Some updatedStaff,
                  rep_error = None, rep_message = None\<rparr>, w1)))"

definition delete_staff_handler :: "store \<Rightarrow> string \<Rightarrow> unit reply \<times> store" where
  "delete_staff_handler w staffId =
     (case deleteStaff w staffId of
        (False, w1) \<Rightarrow>
          (\<lparr>rep_code = 404, rep_success = False, rep_data = None,
            rep_error = Some ''Staff member not found'', rep_message = None\<rparr>, w1)
      | (True, w1) \<Rightarrow>
          (\<lparr>rep_code = 200, rep_success = True, rep_data = None, rep_error = None,
            rep_message = Some ''Staff member deleted successfully''\<rparr>, w1))"

subsection \<open>POST /api/issues/report (src/routes/issues.ts)\<close>

record issue_request =
  iss_task_id :: "string option"
  iss_operator_id :: "string option"
  iss_operator_name :: "string option"
  iss_issue_type :: "string option"
  iss_description :: "string option"
  iss_timestamp :: "string option"
  iss_task_status :: "string option"
  iss_order_name :: "string option"

text \<open>
  The text logged with the issue, a template literal of eight lines. Its characters
  beyond ASCII (two pictographs and four ideographs) are given by their UTF-8 bytes.
\<close>

definition issueDetails :: "issue_request \<Rightarrow> string" where
  "issueDetails req =
     [CHR 0xF0, CHR 0x9F, CHR 0x93, CHR 0x9D] @ '' ''
       @ [CHR 0xE8, CHR 0xA9, CHR 0xB3, CHR 0xE7, CHR 0xB4, CHR 0xB0,
          CHR 0xE8, CHR 0xA8, CHR 0x98, CHR 0xE9, CHR 0x8C, CHR 0xB2]
       @ '' / Detailed Issue Report'' @ [CHR 0x0A]
       @ ''Issue Type: '' @ template (iss_issue_type req) @ [CHR 0x0A]
       @ ''Description: '' @ template (iss_description req) @ [CHR 0x0A]
       @ ''Task Status: '' @ template (iss_task_status req) @ [CHR 0x0A]
       @ ''Order: '' @ template (iss_order_name req) @ [CHR 0x0A]
       @ ''Timestamp: '' @ template (iss_timestamp req) @ [CHR 0x0A]
       @ ''Operator: '' @ template (iss_operator_name req)
       @ '' ('' @ template (iss_operator_id req) @ '')'' @ [CHR 0x0A]
       @ [CHR 0xE2, CHR 0x9A, CHR 0xA0, CHR 0xEF, CHR 0xB8, CHR 0x8F]
       @ '' Task moved to exception pool for resolution''"

definition issue_report_handler :: "store \<Rightarrow> issue_request \<Rightarrow> unit reply \<times> store" where
  "issue_report_handler w req =
     (if \<not> truthy (iss_task_id req) \<or> \<not> truthy (iss_operator_id req)
         \<or> \<not> truthy (iss_issue_type req) \<or> \<not> truthy (iss_description req)
      then (\<lparr>rep_code = 400, rep_success = False, rep_data = None,
             rep_error = Some (''Missing required fields: task_id, operator_id, issue_type, ''
                                 @ ''and description are required''),
             rep_message = None\<rparr>, w)
      else (case moveTaskToExceptionPool w (the (iss_task_id req)) (the (iss_issue_type req))
                   (the (iss_description req)) (the (iss_operator_id req)) of
              (Inl msg, w1) \<Rightarrow>
                (\<lparr>rep_code = 500, rep_success = False, rep_data = None,
                  rep_error = Some ''Failed to report issue'', rep_message = Some msg\<rparr>, w1)
            | (Inr u, w1) \<Rightarrow>
                (case logAction w1 (the (iss_operator_id req)) (the (iss_task_id req))
                        ''REPORT_ISSUE'' (iss_task_status req) (Some ''pending'')
                        (Some (issueDetails req)) None of
                   (logged, w2) \<Rightarrow>
                     (\<lparr>rep_code = 200, rep_success = True, rep_data = None, rep_error = None,
                       rep_message = Some ''Issue reported successfully and logged for review''\<rparr>,
                      w2))))"

subsection \<open>GET /health and the error middleware (src/index.ts, src/middleware/errorHandler.ts)\<close>

record health_response =
  health_code :: nat
  health_status :: string
  health_timestamp :: string

definition health_handler :: "store \<Rightarrow> health_response \<times> store" where
  "health_handler w =
     (\<lparr>health_code = 200, health_status = ''OK'', health_timestamp = now w\<rparr>, w)"

text \<open>
  \<open>errorHandler\<close> answers an error that reaches the framework (the routes catch their
  own): by the error's name, and with its message only in development mode.
\<close>

record js_error =
  err_name :: string
  err_message :: string

definition errorHandler :: "bool \<Rightarrow> js_error \<Rightarrow> unit reply" where
  "errorHandler isDevelopment err =
     (if err_name err = ''AirtableError''
      then \<lparr>rep_code = 400, rep_success = False, rep_data = None,
            rep_error = Some ''Database operation failed'',
            rep_message = Some (if isDevelopment then err_message err
                                else ''Database error occurred'')\<rparr>
      else if err_name err = ''ValidationError''
      then \<lparr>rep_code = 400, rep_success = False, rep_data = None,
            rep_error = Some ''Invalid request data'', rep_message = Some (err_message err)\<rparr>
      else \<lparr>rep_code = 500, rep_success = False, rep_data = None,
            rep_error = Some ''Internal server error'',
            rep_message = Some (if isDevelopment then err_message err
                                else ''Something went wrong'')\<rparr>)"

subsection \<open>POST /api/audit-logs/sync (src/routes/audit-logs.ts)\<close>

record sync_log =
  log_timestamp :: "string option"
  log_action_type :: "string option"
  log_staff_id :: "string option"
  log_task_id :: "string option"
  log_old_value :: "string option"
  log_new_value :: "string option"
  log_details :: "string option"

record sync_response =
  sync_code :: nat
  sync_success :: bool
  synced_count :: nat
  total_logs :: nat
  errors :: "(sync_log option \<times> string) list"
  sync_message :: "string option"
  sync_error :: "string option"

text \<open>
  The body of the loop over the submitted entries: \<open>None\<close> when the entry was stored,
  otherwise the message pushed onto \<^verbatim>\<open>errors\<close>. Destructuring an entry that is
  \<^verbatim>\<open>null\<close> throws; the inner \<^verbatim>\<open>catch\<close> records the engine's message (abbreviated
  here).
\<close>

definition sync_entry :: "store \<Rightarrow> sync_log option \<Rightarrow> string option \<times> store" where
  "sync_entry w entry =
     (case entry of
        None \<Rightarrow> (Some ''Cannot destructure a null entry'', w)
      | Some l \<Rightarrow>
          if \<not> truthy (log_timestamp l) \<or> \<not> truthy (log_action_type l)
             \<or> \<not> truthy (log_staff_id l) \<or> \<not> truthy (log_task_id l)
          then (Some ''Missing required fields: timestamp, action_type, staff_id, task_id'', w)
          else (case logAction w (the (log_staff_id l)) (the (log_task_id l))
                       (the (log_action_type l))
                       (Some (or_default (log_old_value l) []))
                       (Some (or_default (log_new_value l) []))
                       (Some (or_default (log_details l) []))
                       (log_timestamp l) of
                  (True, w1) \<Rightarrow> (None, w1)
                | (False, w1) \<Rightarrow> (Some ''Audit log creation failed'', w1)))"

text \<open>The loop, with its two accumulators \<^verbatim>\<open>syncedCount\<close> and \<^verbatim>\<open>errors\<close>.\<close>

fun sync_loop ::
  "store \<Rightarrow> sync_log option list \<Rightarrow> nat \<Rightarrow> (sync_log option \<times> string) list \<Rightarrow>
   (nat \<times> (sync_log option \<times> string) list) \<times> store" where
  "sync_loop w [] syncedCount errs = ((syncedCount, errs), w)"
| "sync_loop w (entry # entries) syncedCount errs =
     (case sync_entry w entry of
        (None, w1) \<Rightarrow> sync_loop w1 entries (Suc syncedCount) errs
      | (Some msg, w1) \<Rightarrow> sync_loop w1 entries syncedCount (errs @ [(entry, msg)]))"

text \<open>
  The request body's \<^verbatim>\<open>logs\<close> is \<open>None\<close> when it is missing or not an array. In the
  400 answer the fields \<open>synced_count\<close>, \<open>total_logs\<close> and \<open>errors\<close> are absent from the
  JSON; the record holds zeros for them.
\<close>

definition audit_sync_handler ::
  "store \<Rightarrow> sync_log option list option \<Rightarrow> sync_response \<times> store" where
  "audit_sync_handler w logs =
     (case logs of
        None \<Rightarrow>
          (\<lparr>sync_code = 400, sync_success = False, synced_count = 0, total_logs = 0, errors = [],
            sync_message = None, sync_error = Some ''Invalid request: logs array is required''\<rparr>, w)
      | Some ls \<Rightarrow>
          (case sync_loop w ls 0 [] of
             ((syncedCount, errs), w1) \<Rightarrow>
               (\<lparr>sync_code = 200,
                 sync_success = (syncedCount > 0),
                 synced_count = syncedCount,
                 total_logs = length ls,
                 errors = errs,
                 sync_message =
                   Some (if length errs > 0
                         then ''Synced '' @ show_nat syncedCount @ ''/'' @ show_nat (length ls)
                                @ '' audit logs with '' @ show_nat (length errs) @ '' errors''
                         else ''Successfully synced all '' @ show_nat syncedCount @ '' audit logs''),
                 sync_error = None\<rparr>,
                w1)))"

subsection \<open>GET /api/dashboard (src/routes/dashboard.ts)\<close>

text \<open>
  \<open>mapTaskRecords\<close>: every row is mapped. The source starts the mappings together
  (\<^verbatim>\<open>Promise.all\<close>); here their staff look-ups run in the order of the rows.
\<close>

fun mapTaskRecords :: "store \<Rightarrow> task_row list \<Rightarrow> FulfillmentTask list \<times> store" where
  "mapTaskRecords w [] = ([], w)"
| "mapTaskRecords w (r # rs) =
     (case mapTaskRecord w r of
        (t, w1) \<Rightarrow> (case mapTaskRecords w1 rs of (ts, w2) \<Rightarrow> (t # ts, w2)))"

definition getAllTasksOptimized ::
  "store \<Rightarrow> (string + FulfillmentTask list \<times> string) \<times> store" where
  "getAllTasksOptimized w =
     (case tasks_table_select w of
        (None, w1) \<Rightarrow> (Inl ''Failed to fetch tasks from Airtable'', w1)
      | (Some records, w1) \<Rightarrow>
          (case mapTaskRecords w1 records of (ts, w2) \<Rightarrow> (Inr (ts, now w), w2)))"

record grouped_tasks =
  g_pending :: "FulfillmentTask list"
  g_picking :: "FulfillmentTask list"
  g_packed :: "FulfillmentTask list"
  g_inspecting :: "FulfillmentTask list"
  g_correctionNeeded :: "FulfillmentTask list"
  g_correcting :: "FulfillmentTask list"
  g_completed :: "FulfillmentTask list"
  g_paused :: "FulfillmentTask list"
  g_cancelled :: "FulfillmentTask list"

text \<open>The grouping of \<open>getTasksGroupedByStatusOptimized\<close>, on the mapped tasks.\<close>

definition group_by_status :: "FulfillmentTask list \<Rightarrow> grouped_tasks" where
  "group_by_status ts =
     \<lparr>g_pending = filter (\<lambda>t. status t = status_value PENDING \<and> \<not> isPaused t) ts,
      g_picking = filter (\<lambda>t. status t = status_value PICKING \<and> \<not> isPaused t) ts,
      g_packed = filter (\<lambda>t. status t = status_value PACKED \<and> \<not> isPaused t) ts,
      g_inspecting = filter (\<lambda>t. status t = status_value INSPECTING \<and> \<not> isPaused t) ts,
      g_correctionNeeded =
        filter (\<lambda>t. status t = status_value CORRECTION_NEEDED \<and> \<not> isPaused t) ts,
      g_correcting = filter (\<lambda>t. status t = status_value CORRECTING \<and> \<not> isPaused t) ts,
      g_completed = filter (\<lambda>t. status t = status_value COMPLETED) ts,
      g_paused = filter (\<lambda>t. isPaused t = True) ts,
      g_cancelled = filter (\<lambda>t. status t = status_value CANCELLED) ts\<rparr>"

definition getTasksGroupedByStatusOptimized ::
  "store \<Rightarrow> (string + grouped_tasks \<times> string) \<times> store" where
  "getTasksGroupedByStatusOptimized w =
     (case getAllTasksOptimized w of
        (Inl msg, w1) \<Rightarrow> (Inl msg, w1)
      | (Inr (ts, lastModified), w1) \<Rightarrow> (Inr (group_by_status ts, lastModified), w1))"

record dashboard_tasks =
  d_pending :: "FulfillmentTask list"
  d_picking :: "FulfillmentTask list"
  d_packed :: "FulfillmentTask list"
  d_inspecting :: "FulfillmentTask list"
  d_completed :: "FulfillmentTask list"
  d_paused :: "FulfillmentTask list"
  d_cancelled :: "FulfillmentTask list"

record dashboard_stats =
  s_pending :: nat
  s_picking :: nat
  s_packed :: nat
  s_inspecting :: nat
  s_completed :: nat
  s_paused :: nat
  s_cancelled :: nat
  s_total :: nat

record dashboard_response =
  dash_code :: nat
  dash_success :: bool
  dash_tasks :: "dashboard_tasks option"
  dash_stats :: "dashboard_stats option"
  dash_lastUpdated :: "string option"
  dash_error :: "string option"

definition simplify_groups :: "grouped_tasks \<Rightarrow> dashboard_tasks" where
  "simplify_groups g =
     \<lparr>d_pending = g_pending g,
      d_picking = g_picking g,
      d_packed = g_packed g,
      d_inspecting = g_inspecting g @ g_correctionNeeded g @ g_correcting g,
      d_completed = g_completed g,
      d_paused = g_paused g,
      d_cancelled = g_cancelled g\<rparr>"

text \<open>
  \<^verbatim>\<open>Object.values(simplifiedGroupedTasks).reduce((sum, tasks) => sum + tasks.length, 0)\<close>
  adds the lengths of the seven simplified groups.
\<close>

definition dashboard_stats_of :: "dashboard_tasks \<Rightarrow> dashboard_stats" where
  "dashboard_stats_of d =
     \<lparr>s_pending = length (d_pending d),
      s_picking = length (d_picking d),
      s_packed = length (d_packed d),
      s_inspecting = length (d_inspecting d),
      s_completed = length (d_completed d),
      s_paused = length (d_paused d),
      s_cancelled = length (d_cancelled d),
      s_total =
        fold (\<lambda>group_tasks total. total + length group_tasks)
          [d_pending d, d_picking d, d_packed d, d_inspecting d, d_completed d, d_paused d,
           d_cancelled d] 0\<rparr>"

definition dashboard_handler :: "store \<Rightarrow> dashboard_response \<times> store" where
  "dashboard_handler w =
     (case getTasksGroupedByStatusOptimized w of
        (Inl msg, w1) \<Rightarrow>
          (\<lparr>dash_code = 500, dash_success = False, dash_tasks = None, dash_stats = None,
            dash_lastUpdated = None, dash_error = Some ''Failed to fetch dashboard data''\<rparr>, w1)
      | (Inr (g, lastModified), w1) \<Rightarrow>
          (let simplifiedGroupedTasks = simplify_groups g
           in (\<lparr>dash_code = 200, dash_success = True,
                dash_tasks = Some simplifiedGroupedTasks,
                dash_stats = Some (dashboard_stats_of simplifiedGroupedTasks),
                dash_lastUpdated = Some lastModified, dash_error = None\<rparr>, w1)))"

section \<open>Sample data\<close>

text \<open>
  A small store used to run the model: one task in status Picking held by operator
  CAT001, one staff member, an empty audit log, and no scheduled failure.
\<close>

definition sample_row :: task_row where
  "sample_row =
     \<lparr>row_id = ''recTask1'',
      order_name = Some ''#1001'',
      status_col = Some ''Picking'',
      shipping_name = None,
      created_at = Some ''2025-12-31T10:00:00.000Z'',
      checklist_json = None,
      current_operator = Some (Scalar ''CAT001''),
      shipping_address1 = None,
      shipping_address2 = None,
      shipping_city = None,
      shipping_province = None,
      shipping_zip = None,
      shipping_phone = None,
      is_paused = None,
      in_exception_pool = None,
      exception_reason = None,
      exception_logged_at = None,
      exception_notes = None,
      updated_at = None,
      started_at = None,
      picked_at = None,
      start_inspection_at = None,
      completed_at = None,
      return_to_pending_at = None\<rparr>"

definition sample_staff :: staff_row where
  "sample_staff =
     \<lparr>staff_rec_id = ''recStaff1'', staff_id = Some ''CAT001'', name = Some ''Tama'',
      is_active = Some True\<rparr>"

text \<open>The order of ISO timestamps: the order of the strings, character by character.\<close>

fun iso_le :: "string \<Rightarrow> string \<Rightarrow> bool" where
  "iso_le [] b = True"
| "iso_le (x # xs) [] = False"
| "iso_le (x # xs) (y # ys) =
     ((of_char x :: nat) < of_char y \<or> (x = y \<and> iso_le xs ys))"

definition sample_store :: store where
  "sample_store =
     \<lparr>tasks = [sample_row],
      staff = [sample_staff],
      audit_log = [],
      find_faults = [],
      update_faults = [],
      select_faults = [],
      staff_faults = [],
      staff_find_faults = [],
      staff_write_faults = [],
      audit_faults = [],
      audit_select_faults = [],
      now = ''2026-01-01T00:00:00.000Z'',
      now_millis = 1767225600000,
      date_parse = (\<lambda>s. if s = ''2025-12-31T10:00:00.000Z'' then Some s else None),
      header_ok = list_all (\<lambda>c. c \<noteq> CHR 0x0A \<and> c \<noteq> CHR 0x0D),
      next_rec_id = 2,
      timestamp_le = iso_le\<rparr>"

definition sample_payload :: payload where
  "sample_payload =
     \<lparr>weight = Some ''2kg'', dimensions = Some ''10x10x10'', errorType = None,
      reason = Some ''damaged_item'', payload_notes = None\<rparr>"

definition sample_request :: "TaskAction \<Rightarrow> action_request" where
  "sample_request a =
     \<lparr>req_task_id = Some ''recTask1'', req_action = Some (action_value a),
      req_operator_id = Some ''CAT001'', req_payload = Some sample_payload\<rparr>"

definition sample_issue :: issue_request where
  "sample_issue =
     \<lparr>iss_task_id = Some ''recTask1'', iss_operator_id = Some ''CAT001'',
      iss_operator_name = Some ''Tama'', iss_issue_type = Some ''damaged_item'',
      iss_description = Some ''box crushed'', iss_timestamp = Some ''2026-01-01T00:00:00.000Z'',
      iss_task_status = Some ''Picking'', iss_order_name = Some ''#1001''\<rparr>"

definition sample_task :: "string \<Rightarrow> bool \<Rightarrow> FulfillmentTask" where
  "sample_task st paused =
     \<lparr>id_ft = ''recTask1'', orderName = ''#1001'', status = st, shippingName = [],
      createdAt = ''2025-12-31T10:00:00.000Z'', checklistJson = ''[]'', currentOperator = None,
      shippingAddress1 = None, shippingAddress2 = None, shippingCity = None,
      shippingProvince = None, shippingZip = None, shippingPhone = None,
      isPaused = paused, inExceptionPool = False, exceptionReason = None,
      exceptionLoggedAt = None, exceptionNotes = None, lastModifiedAt = None\<rparr>"

text \<open>The reported total of the dashboard for a list of mapped tasks.\<close>

definition total_of :: "FulfillmentTask list \<Rightarrow> nat" where
  "total_of ts = s_total (dashboard_stats_of (simplify_groups (group_by_status ts)))"

definition sample_log :: sync_log where
  "sample_log =
     \<lparr>log_timestamp = Some ''2025-12-31T23:59:00.000Z'', log_action_type = Some ''TASK_PAUSED'',
      log_staff_id = Some ''CAT001'', log_task_id = Some ''recTask1'', log_old_value = None,
      log_new_value = None, log_details = Some ''paused offline''\<rparr>"

text \<open>
  A store with other outcomes of the audit writes and another audit log, and the
  operations whose result and effect on the rest of the store do not depend on either.
\<close>

definition with_audit :: "store \<Rightarrow> bool list \<Rightarrow> audit_row list \<Rightarrow> store" where
  "with_audit w fs al = w\<lparr>audit_faults := fs, audit_log := al\<rparr>"


section \<open>The record mapper\<close>

lemma filter_Nil_find: "filter P xs = [] \<Longrightarrow> find P xs = None"
  by (induction xs) (auto split: if_splits)

lemma filter_Cons_find: "filter P xs = y # ys \<Longrightarrow> find P xs = Some y"
  by (induction xs) (auto split: if_splits)

lemma find_Some_holds: "find P xs = Some y \<Longrightarrow> P y"
  by (induction xs) (auto split: if_splits)

text \<open>The staff look-up of the mapper, in closed form.\<close>

lemma getOperatorFromStaffId_eq:
  "getOperatorFromStaffId w v =
     (if fst (pop (staff_faults w)) then None
      else map_option (\<lambda>s. \<lparr>id_sm = Some v, name_sm = name s\<rparr>)
             (find (\<lambda>s. staff_id s = Some v) (staff w)),
      w\<lparr>staff_faults := snd (pop (staff_faults w))\<rparr>)"
proof -
  obtain b rest where p: "pop (staff_faults w) = (b, rest)"
    by (cases "pop (staff_faults w)")
  show ?thesis
  proof (cases "filter (\<lambda>r. staff_id r = Some v) (staff w)")
    case Nil
    with p filter_Nil_find [OF Nil] show ?thesis
      by (simp add: getOperatorFromStaffId_def staff_table_select_def)
  next
    case (Cons y ys)
    have "staff_id y = Some v"
      using find_Some_holds [OF filter_Cons_find [OF Cons]] .
    with p Cons filter_Cons_find [OF Cons] show ?thesis
      by (simp add: getOperatorFromStaffId_def staff_table_select_def)
  qed
qed

text \<open>
  C7. Mapping a store row never fails because of the creation timestamp: when the raw
  \<^verbatim>\<open>created_at\<close> is absent (or empty), or is not parsable as a date, the mapper still
  returns a task, and the task's \<open>createdAt\<close> is the current time.
\<close>

theorem created_at_fallback:
  assumes "\<not> truthy (created_at r) \<or> (\<exists>raw. created_at r = Some raw \<and> date_parse w raw = None)"
  shows "\<exists>t w'. mapTaskRecord w r = (t, w') \<and> createdAt t = now w"
  using assms
  by (auto simp: mapTaskRecord_def createdAtISO_def toISOString_def
           split: prod.splits option.splits)

theorem created_at_fallback_witness:
  "date_parse sample_store ''yesterday'' = None
   \<and> createdAt (fst (mapTaskRecord sample_store (sample_row\<lparr>created_at := Some ''yesterday''\<rparr>)))
       = ''2026-01-01T00:00:00.000Z''"
  using created_at_fallback [of "sample_row\<lparr>created_at := Some ''yesterday''\<rparr>" sample_store]
  by (auto simp: sample_store_def)

text \<open>
  C8. A present (non-empty) \<^verbatim>\<open>current_operator\<close> is accepted as a plain value \<open>v\<close> and as
  the one-element list \<open>[v]\<close>, by \<open>mapTaskRecord\<close> and by \<open>mapTaskRecordLegacy\<close> alike: the
  operator is the first staff row whose \<^verbatim>\<open>staff_id\<close> is \<open>v\<close>, with that \<open>v\<close> as its
  identifier; when the look-up fails or finds no such row the operator is absent, and
  the mapping returns all the same.
\<close>

theorem current_operator_forms:
  assumes "v \<noteq> []"
    and "current_operator r = Some (Scalar v) \<or> current_operator r = Some (RefList [v])"
  shows "currentOperator (fst (mapTaskRecord w r)) =
           (if fst (pop (staff_faults w)) then None
            else map_option (\<lambda>s. \<lparr>id_sm = Some v, name_sm = name s\<rparr>)
                   (find (\<lambda>s. staff_id s = Some v) (staff w)))
       \<and> currentOperator (fst (mapTaskRecordLegacy w r)) =
           (if fst (pop (staff_faults w)) then None
            else map_option (\<lambda>s. \<lparr>id_sm = Some v, name_sm = name s\<rparr>)
                   (find (\<lambda>s. staff_id s = Some v) (staff w)))"
  using assms
  by (auto simp: mapTaskRecord_def mapTaskRecordLegacy_def getOperatorFromStaffId_eq)

theorem current_operator_forms_witness:
  "currentOperator
     (fst (mapTaskRecord sample_store (sample_row\<lparr>current_operator := Some (RefList [''CAT001''])\<rparr>)))
     = Some \<lparr>id_sm = Some ''CAT001'', name_sm = Some ''Tama''\<rparr>
   \<and> currentOperator
     (fst (mapTaskRecordLegacy sample_store (sample_row\<lparr>current_operator := Some (RefList [''CAT001''])\<rparr>)))
     = Some \<lparr>id_sm = Some ''CAT001'', name_sm = Some ''Tama''\<rparr>"
  using current_operator_forms
    [where r = "sample_row\<lparr>current_operator := Some (RefList [''CAT001''])\<rparr>"
       and v = "''CAT001''" and w = sample_store]
  by (simp add: sample_store_def sample_staff_def)

section \<open>The dashboard grouping\<close>

lemma total_of_Nil: "total_of [] = 0"
  by (simp add: total_of_def dashboard_stats_of_def simplify_groups_def group_by_status_def)

lemma total_of_append: "total_of (xs @ ys) = total_of xs + total_of ys"
  by (simp add: total_of_def dashboard_stats_of_def simplify_groups_def group_by_status_def)

lemma total_of_single_value: "status t = status_value x \<Longrightarrow> 1 \<le> total_of [t]"
  by (cases x; cases "isPaused t")
     (simp_all add: total_of_def dashboard_stats_of_def simplify_groups_def group_by_status_def)

lemma total_of_single_enum: "status t \<in> range status_value \<Longrightarrow> 1 \<le> total_of [t]"
  using total_of_single_value by blast

text \<open>When every status is a member of the enum, every task is counted at least once.\<close>

lemma total_of_ge:
  "\<forall>x\<in>set ts. status x \<in> range status_value \<Longrightarrow> length ts \<le> total_of ts"
proof (induction ts)
  case Nil
  show ?case by (simp add: total_of_Nil)
next
  case (Cons a ts)
  have "total_of (a # ts) = total_of [a] + total_of ts"
    using total_of_append [of "[a]" ts] by simp
  moreover have "1 \<le> total_of [a]"
    using Cons.prems total_of_single_enum [of a] by simp
  moreover have "length ts \<le> total_of ts"
    using Cons by simp
  ultimately show ?case by simp
qed

lemma total_of_completed_paused:
  "status t = status_value COMPLETED \<Longrightarrow> isPaused t \<Longrightarrow> total_of [t] = 2"
  by (simp add: total_of_def dashboard_stats_of_def simplify_groups_def group_by_status_def)

lemma total_exceeds:
  assumes "t \<in> set ts" "isPaused t" "status t = status_value COMPLETED"
    and enum: "\<forall>x\<in>set ts. status x \<in> range status_value"
  shows "length ts < total_of ts"
proof -
  obtain xs ys where ts: "ts = xs @ t # ys"
    using assms(1) by (auto simp: in_set_conv_decomp)
  have "total_of ts = total_of xs + total_of [t] + total_of ys"
    using total_of_append [of xs "t # ys"] total_of_append [of "[t]" ys] ts by simp
  moreover have "length xs \<le> total_of xs"
    using enum ts by (intro total_of_ge) simp
  moreover have "length ys \<le> total_of ys"
    using enum ts by (intro total_of_ge) simp
  moreover have "total_of [t] = 2"
    using assms by (simp add: total_of_completed_paused)
  ultimately show ?thesis
    using ts by simp
qed

text \<open>What the dashboard route reports for the tasks the store lists.\<close>

lemma dashboard_handler_groups:
  assumes "getAllTasksOptimized w = (Inr (ts, lastModified), w1)"
  shows "dash_code (fst (dashboard_handler w)) = 200
       \<and> dash_tasks (fst (dashboard_handler w)) = Some (simplify_groups (group_by_status ts))
       \<and> dash_stats (fst (dashboard_handler w))
           = Some (dashboard_stats_of (simplify_groups (group_by_status ts)))"
  using assms by (simp add: dashboard_handler_def getTasksGroupedByStatusOptimized_def Let_def)

text \<open>
  C10, as stated, fails for the status Cancelled: the cancelled group, like the completed
  one, is not filtered by the pause flag, so a paused task in status Cancelled is in its
  status's group (and in the paused group).
\<close>

theorem paused_cancelled_counterexample:
  "isPaused (sample_task ''Cancelled'' True)
   \<and> status (sample_task ''Cancelled'' True) \<noteq> status_value COMPLETED
   \<and> sample_task ''Cancelled'' True
       \<in> set (d_cancelled (simplify_groups (group_by_status [sample_task ''Cancelled'' True])))
   \<and> sample_task ''Cancelled'' True
       \<in> set (d_paused (simplify_groups (group_by_status [sample_task ''Cancelled'' True])))"
  by (simp add: sample_task_def simplify_groups_def group_by_status_def)

text \<open>
  C10, amended. A paused task is in the paused group. If its status is Completed it is in
  the completed group as well, and then, all statuses being members of the enum, the
  reported total exceeds the number of tasks; if its status is Cancelled it is in the
  cancelled group as well. For every other status it is in none of the groups pending,
  picking, packed, inspecting, completed and cancelled.
\<close>

theorem paused_task_groups:
  assumes "t \<in> set ts" and "isPaused t"
  shows "t \<in> set (d_paused (simplify_groups (group_by_status ts)))
       \<and> (status t = status_value COMPLETED \<longrightarrow>
            t \<in> set (d_completed (simplify_groups (group_by_status ts)))
          \<and> ((\<forall>x\<in>set ts. status x \<in> range status_value) \<longrightarrow>
               length ts < s_total (dashboard_stats_of (simplify_groups (group_by_status ts)))))
       \<and> (status t = status_value CANCELLED \<longrightarrow>
            t \<in> set (d_cancelled (simplify_groups (group_by_status ts))))
       \<and> (status t \<noteq> status_value COMPLETED \<and> status t \<noteq> status_value CANCELLED \<longrightarrow>
            t \<notin> set (d_pending (simplify_groups (group_by_status ts)))
          \<and> t \<notin> set (d_picking (simplify_groups (group_by_status ts)))
          \<and> t \<notin> set (d_packed (simplify_groups (group_by_status ts)))
          \<and> t \<notin> set (d_inspecting (simplify_groups (group_by_status ts)))
          \<and> t \<notin> set (d_completed (simplify_groups (group_by_status ts)))
          \<and> t \<notin> set (d_cancelled (simplify_groups (group_by_status ts))))"
proof -
  have "status t = status_value COMPLETED \<Longrightarrow> \<forall>x\<in>set ts. status x \<in> range status_value \<Longrightarrow>
        length ts < s_total (dashboard_stats_of (simplify_groups (group_by_status ts)))"
    using total_exceeds [OF assms] by (simp add: total_of_def)
  then show ?thesis
    using assms by (simp add: simplify_groups_def group_by_status_def)
qed

theorem paused_task_groups_witness:
  "sample_task ''Completed'' True
     \<in> set (d_paused (simplify_groups (group_by_status [sample_task ''Completed'' True])))
   \<and> sample_task ''Completed'' True
     \<in> set (d_completed (simplify_groups (group_by_status [sample_task ''Completed'' True])))
   \<and> length [sample_task ''Completed'' True]
     < s_total (dashboard_stats_of (simplify_groups (group_by_status [sample_task ''Completed'' True])))"
proof -
  have "status (sample_task ''Completed'' True) \<in> range status_value"
    using range_eqI [of "''Completed''" status_value COMPLETED] by (simp add: sample_task_def)
  then show ?thesis
    using paused_task_groups [of "sample_task ''Completed'' True" "[sample_task ''Completed'' True]"]
    by (simp add: sample_task_def)
qed

section \<open>Store calls and what they leave unchanged\<close>

text \<open>The definitions that running the model on a concrete store unfolds.\<close>

lemmas model_defs =
  tasks_table_find_def tasks_table_update_def tasks_table_select_def staff_table_select_def audit_table_create_def
  or_default_def or_undefined_def or_false_def template_def toISOString_def
  getOperatorFromStaffId_def createdAtISO_def mapTaskRecord_def getTaskById_def getStaffById_def
  getStaffRecordId_def is_space_def trim_def getActionTypeForStatus_def actionMappings_def
  object_prototype_keys_def member_or_def mapActionType_def resolveStaff_def trimmed_value_def auditFields_def logAction_def
  atomicTaskOperation_def statusUpdateFields_def updateTaskStatus_def pauseUpdateFields_def
  pauseTask_def resumeUpdateFields_def resumeTask_def bad_request_def not_found_def
  server_error_def ok_def get_task_handler_def get_staff_handler_def pget_def parse_action_def
  finish_def update_then_log_def task_action_handler_def
  sample_row_def sample_staff_def sample_store_def sample_payload_def sample_request_def Let_def

lemmas route_defs =
  staff_table_select_all_def staff_table_find_def staff_table_create_def staff_table_update_def
  staff_table_destroy_def sort_by_def audit_table_select_def checklistUpdateFields_def
  updateTaskChecklist_def getAllStaffOptimized_def createStaff_def updateStaff_def deleteStaff_def
  read_cell_def read_member_def displayMappings_def formatActionForDisplay_def iconMappings_def
  getActionIcon_def audit_rec_id_def historyEntry_def getTaskWorkHistory_def
  exceptionUpdateFields_def moveTaskToExceptionPool_def checklist_handler_def history_handler_def
  staff_list_handler_def checkin_handler_def create_staff_handler_def update_staff_handler_def
  delete_staff_handler_def issueDetails_def issue_report_handler_def health_handler_def
  errorHandler_def sample_issue_def

lemma tasks_table_find_eq:
  "tasks_table_find w t =
     (if fst (pop (find_faults w)) then None else find (\<lambda>r. row_id r = t) (tasks w),
      w\<lparr>find_faults := snd (pop (find_faults w))\<rparr>)"
  by (simp add: tasks_table_find_def split_beta)

lemma audit_table_create_eq:
  "audit_table_create w a =
     (\<not> fst (pop (audit_faults w)),
      if fst (pop (audit_faults w)) then w\<lparr>audit_faults := snd (pop (audit_faults w))\<rparr>
      else w\<lparr>audit_faults := snd (pop (audit_faults w)), audit_log := audit_log w @ [a]\<rparr>)"
  by (simp add: audit_table_create_def split_beta)

lemma getStaffById_eq: "getStaffById w v = getOperatorFromStaffId w v"
  by (simp add: getStaffById_def getOperatorFromStaffId_def)

lemma getStaffRecordId_eq:
  "getStaffRecordId w v =
     (if fst (pop (staff_faults w)) then None
      else map_option staff_rec_id (find (\<lambda>s. staff_id s = Some v) (staff w)),
      w\<lparr>staff_faults := snd (pop (staff_faults w))\<rparr>)"
proof -
  obtain b rest where p: "pop (staff_faults w) = (b, rest)"
    by (cases "pop (staff_faults w)")
  show ?thesis
  proof (cases "filter (\<lambda>r. staff_id r = Some v) (staff w)")
    case Nil
    with p filter_Nil_find [OF Nil] show ?thesis
      by (simp add: getStaffRecordId_def staff_table_select_def)
  next
    case (Cons y ys)
    with p filter_Cons_find [OF Cons] show ?thesis
      by (simp add: getStaffRecordId_def staff_table_select_def)
  qed
qed

lemma mapTaskRecord_frame [simp]:
  "tasks (snd (mapTaskRecord w r)) = tasks w"
  "staff (snd (mapTaskRecord w r)) = staff w"
  "audit_log (snd (mapTaskRecord w r)) = audit_log w"
  "find_faults (snd (mapTaskRecord w r)) = find_faults w"
  "update_faults (snd (mapTaskRecord w r)) = update_faults w"
  "select_faults (snd (mapTaskRecord w r)) = select_faults w"
  "audit_faults (snd (mapTaskRecord w r)) = audit_faults w"
  "now (snd (mapTaskRecord w r)) = now w"
  "date_parse (snd (mapTaskRecord w r)) = date_parse w"
  by (simp_all add: mapTaskRecord_def getOperatorFromStaffId_eq split_beta split: option.splits)

lemma getTaskById_frame [simp]:
  "tasks (snd (getTaskById w t)) = tasks w"
  "staff (snd (getTaskById w t)) = staff w"
  "audit_log (snd (getTaskById w t)) = audit_log w"
  "update_faults (snd (getTaskById w t)) = update_faults w"
  "select_faults (snd (getTaskById w t)) = select_faults w"
  "audit_faults (snd (getTaskById w t)) = audit_faults w"
  "now (snd (getTaskById w t)) = now w"
  "date_parse (snd (getTaskById w t)) = date_parse w"
  by (simp_all add: getTaskById_def tasks_table_find_eq split_beta split: option.splits)

lemma resolveStaff_frame [simp]:
  "tasks (snd (resolveStaff w v)) = tasks w"
  "staff (snd (resolveStaff w v)) = staff w"
  "audit_log (snd (resolveStaff w v)) = audit_log w"
  "find_faults (snd (resolveStaff w v)) = find_faults w"
  "update_faults (snd (resolveStaff w v)) = update_faults w"
  "select_faults (snd (resolveStaff w v)) = select_faults w"
  "audit_faults (snd (resolveStaff w v)) = audit_faults w"
  "now (snd (resolveStaff w v)) = now w"
  "date_parse (snd (resolveStaff w v)) = date_parse w"
  by (simp_all add: resolveStaff_def getStaffById_eq getOperatorFromStaffId_eq getStaffRecordId_eq
        split_beta split: option.splits)

lemma logAction_fst [simp]:
  "fst (logAction w v t a ov nv d ts) = (\<not> fst (pop (audit_faults w)))"
  by (simp add: logAction_def audit_table_create_eq split_beta)

lemma logAction_frame [simp]:
  "tasks (snd (logAction w v t a ov nv d ts)) = tasks w"
  "staff (snd (logAction w v t a ov nv d ts)) = staff w"
  "find_faults (snd (logAction w v t a ov nv d ts)) = find_faults w"
  "update_faults (snd (logAction w v t a ov nv d ts)) = update_faults w"
  "select_faults (snd (logAction w v t a ov nv d ts)) = select_faults w"
  "now (snd (logAction w v t a ov nv d ts)) = now w"
  "date_parse (snd (logAction w v t a ov nv d ts)) = date_parse w"
  "audit_faults (snd (logAction w v t a ov nv d ts)) = snd (pop (audit_faults w))"
  by (simp_all add: logAction_def audit_table_create_eq split_beta)

lemma logAction_audit_log:
  "audit_log (snd (logAction w v t a ov nv d ts)) =
     (if fst (pop (audit_faults w)) then audit_log w
      else audit_log w @ [auditFields w (fst (fst (resolveStaff w v))) (snd (fst (resolveStaff w v)))
                            t a ov nv d ts])"
  by (simp add: logAction_def audit_table_create_eq split_beta)

section \<open>The audit log sync route\<close>

lemma sync_entry_effect:
  "sync_entry w entry = (x, w1) \<Longrightarrow>
     (x = None \<longrightarrow> (\<exists>a. audit_log w1 = audit_log w @ [a]))
     \<and> (x \<noteq> None \<longrightarrow> audit_log w1 = audit_log w)"
proof (cases entry)
  case None
  then show "sync_entry w entry = (x, w1) \<Longrightarrow> ?thesis"
    by (auto simp: sync_entry_def)
next
  case (Some l)
  let ?la = "logAction w (the (log_staff_id l)) (the (log_task_id l)) (the (log_action_type l))
         (Some (or_default (log_old_value l) [])) (Some (or_default (log_new_value l) []))
         (Some (or_default (log_details l) [])) (log_timestamp l)"
  assume e: "sync_entry w entry = (x, w1)"
  show ?thesis
  proof (cases "\<not> truthy (log_timestamp l) \<or> \<not> truthy (log_action_type l)
         \<or> \<not> truthy (log_staff_id l) \<or> \<not> truthy (log_task_id l)")
    case True
    with e Some show ?thesis
      by (auto simp: sync_entry_def)
  next
    case False
    with e Some have x: "x = (if fst ?la then None else Some ''Audit log creation failed'')"
      and w1: "w1 = snd ?la"
      by (auto simp: sync_entry_def simp del: logAction_fst split: prod.splits bool.splits)
    show ?thesis
      unfolding x w1 by (simp add: logAction_audit_log)
  qed
qed

lemma sync_loop_count:
  "sync_loop w entries n errs = ((n', errs'), w') \<Longrightarrow>
     n \<le> n' \<and> (\<exists>new. audit_log w' = audit_log w @ new \<and> length new = n' - n)"
proof (induction entries arbitrary: w n errs)
  case Nil
  then show ?case by simp
next
  case (Cons entry entries)
  obtain x w1 where e: "sync_entry w entry = (x, w1)"
    by (metis prod.exhaust)
  show ?case
  proof (cases x)
    case None
    with Cons.prems e have step: "sync_loop w1 entries (Suc n) errs = ((n', errs'), w')"
      by simp
    from sync_entry_effect [OF e] None obtain a where "audit_log w1 = audit_log w @ [a]"
      by auto
    with Cons.IH [OF step] show ?thesis
      by auto
  next
    case (Some msg)
    with Cons.prems e
    have step: "sync_loop w1 entries n (errs @ [(entry, msg)]) = ((n', errs'), w')"
      by simp
    from sync_entry_effect [OF e] Some have "audit_log w1 = audit_log w"
      by auto
    with Cons.IH [OF step] show ?thesis
      by auto
  qed
qed

text \<open>
  C9. The sync route answers 200 with \<open>success\<close> true exactly when \<open>synced_count\<close> is
  positive, and \<open>synced_count\<close> is the number of rows the request appended to the audit
  log; an empty list of entries gives \<open>success\<close> false with no entry error.
\<close>

theorem sync_success_iff_stored:
  assumes "audit_sync_handler w (Some ls) = (resp, w')"
  shows "sync_code resp = 200
       \<and> sync_success resp = (0 < synced_count resp)
       \<and> (\<exists>new. audit_log w' = audit_log w @ new \<and> length new = synced_count resp)
       \<and> (ls = [] \<longrightarrow> \<not> sync_success resp \<and> synced_count resp = 0 \<and> errors resp = [])"
proof -
  obtain n errs w1 where loop: "sync_loop w ls 0 [] = ((n, errs), w1)"
    by (metis prod.exhaust)
  from loop assms have resp: "sync_code resp = 200" "sync_success resp = (0 < n)" "synced_count resp = n"
     "errors resp = errs" "w' = w1"
    by (auto simp: audit_sync_handler_def)
  from sync_loop_count [OF loop] resp have "\<exists>new. audit_log w' = audit_log w @ new \<and> length new = synced_count resp"
    by simp
  moreover have "ls = [] \<longrightarrow> \<not> sync_success resp \<and> synced_count resp = 0 \<and> errors resp = []"
    using loop resp by auto
  ultimately show ?thesis using resp by simp
qed

theorem sync_success_iff_stored_witness:
  "\<not> sync_success (fst (audit_sync_handler sample_store (Some [])))
   \<and> errors (fst (audit_sync_handler sample_store (Some []))) = []
   \<and> sync_success (fst (audit_sync_handler sample_store (Some [Some sample_log])))
   \<and> length (audit_log (snd (audit_sync_handler sample_store (Some [Some sample_log])))) = 1"
  using
    sync_success_iff_stored [of sample_store "[]"
      "fst (audit_sync_handler sample_store (Some []))"
      "snd (audit_sync_handler sample_store (Some []))"]
    sync_success_iff_stored [of sample_store "[Some sample_log]"
      "fst (audit_sync_handler sample_store (Some [Some sample_log]))"
      "snd (audit_sync_handler sample_store (Some [Some sample_log]))"]
  by (simp add: audit_sync_handler_def sync_entry_def sample_log_def model_defs)

section \<open>Task mutations, step by step\<close>

lemma parse_action_value [simp]: "parse_action (action_value a) = Some a"
  by (cases a) (simp_all add: parse_action_def)

lemma action_value_nonempty [simp]: "action_value a \<noteq> []"
  by (cases a) simp_all

lemma map_if_find_None: "find P xs = None \<Longrightarrow> map (\<lambda>x. if P x then f x else x) xs = xs"
  by (induction xs) (auto split: if_splits)

lemma find_map_update:
  assumes "find (\<lambda>r. row_id r = t) xs = Some r" and "\<And>x. row_id (u x) = row_id x"
  shows "find (\<lambda>r. row_id r = t) (map (\<lambda>x. if row_id x = t then u x else x) xs) = Some (u r)"
  using assms by (induction xs) (auto split: if_splits)

lemma tasks_table_update_frame [simp]:
  "staff (snd (tasks_table_update w t u)) = staff w"
  "audit_log (snd (tasks_table_update w t u)) = audit_log w"
  "find_faults (snd (tasks_table_update w t u)) = find_faults w"
  "select_faults (snd (tasks_table_update w t u)) = select_faults w"
  "staff_faults (snd (tasks_table_update w t u)) = staff_faults w"
  "audit_faults (snd (tasks_table_update w t u)) = audit_faults w"
  "now (snd (tasks_table_update w t u)) = now w"
  "date_parse (snd (tasks_table_update w t u)) = date_parse w"
  "update_faults (snd (tasks_table_update w t u)) = snd (pop (update_faults w))"
  by (simp_all add: tasks_table_update_def split_beta Let_def split: option.splits)

lemma tasks_table_update_tasks:
  "tasks (snd (tasks_table_update w t u)) =
     (if fst (pop (update_faults w)) then tasks w
      else map (\<lambda>x. if row_id x = t then u x else x) (tasks w))"
  by (simp add: tasks_table_update_def split_beta Let_def map_if_find_None split: option.splits)

lemma tasks_table_update_fst:
  "fst (tasks_table_update w t u) =
     (if fst (pop (update_faults w)) then None
      else map_option u (find (\<lambda>r. row_id r = t) (tasks w)))"
  by (simp add: tasks_table_update_def split_beta Let_def split: option.splits)

lemma getTaskById_fst:
  "fst (getTaskById w t) =
     (if fst (pop (find_faults w)) then None
      else map_option (\<lambda>r. fst (mapTaskRecord (w\<lparr>find_faults := snd (pop (find_faults w))\<rparr>) r))
             (find (\<lambda>r. row_id r = t) (tasks w)))"
  by (simp add: getTaskById_def tasks_table_find_eq split_beta split: option.splits)

lemma getTaskById_find_faults [simp]:
  "find_faults (snd (getTaskById w t)) = snd (pop (find_faults w))"
  by (simp add: getTaskById_def tasks_table_find_eq split_beta split: option.splits)

text \<open>Fields of a mapped task that are read off the row alone.\<close>

lemma mapTaskRecord_fields [simp]:
  "status (fst (mapTaskRecord w r)) = or_default (status_col r) (status_value PENDING)"
  "isPaused (fst (mapTaskRecord w r)) = or_false (is_paused r)"
  "lastModifiedAt (fst (mapTaskRecord w r)) = updated_at r"
  "inExceptionPool (fst (mapTaskRecord w r)) = or_false (in_exception_pool r)"
  "exceptionReason (fst (mapTaskRecord w r)) = or_undefined (exception_reason r)"
  "id_ft (fst (mapTaskRecord w r)) = row_id r"
  by (simp_all add: mapTaskRecord_def split_beta)

lemma mapTaskRecord_operator_cleared:
  "current_operator r = Some (Scalar []) \<Longrightarrow> currentOperator (fst (mapTaskRecord w r)) = None"
  by (simp add: mapTaskRecord_def)

lemma auditFields_fields [simp]:
  "task_id (auditFields w rid nm t a ov nv d ts) = t"
  "action_type (auditFields w rid nm t a ov nv d ts) = mapActionType a"
  "old_value (auditFields w rid nm t a ov nv d ts) = trimmed_value ov"
  "new_value (auditFields w rid nm t a ov nv d ts) = trimmed_value nv"
  by (simp_all add: auditFields_def)

lemma atomicTaskOperation_frame [simp]:
  "staff (snd (atomicTaskOperation w t v act u ov nv d)) = staff w"
  "find_faults (snd (atomicTaskOperation w t v act u ov nv d)) = find_faults w"
  "select_faults (snd (atomicTaskOperation w t v act u ov nv d)) = select_faults w"
  "now (snd (atomicTaskOperation w t v act u ov nv d)) = now w"
  "date_parse (snd (atomicTaskOperation w t v act u ov nv d)) = date_parse w"
  "update_faults (snd (atomicTaskOperation w t v act u ov nv d)) = snd (pop (update_faults w))"
  "audit_faults (snd (atomicTaskOperation w t v act u ov nv d)) = snd (pop (audit_faults w))"
  by (simp_all add: atomicTaskOperation_def split_beta split: option.splits)


lemma atomicTaskOperation_tasks:
  "tasks (snd (atomicTaskOperation w t v act u ov nv d)) =
     (if fst (pop (update_faults w)) then tasks w
      else map (\<lambda>x. if row_id x = t then u x else x) (tasks w))"
  by (simp add: atomicTaskOperation_def split_beta tasks_table_update_tasks split: option.splits)

lemma atomicTaskOperation_fst:
  "map_sum id fst (fst (atomicTaskOperation w t v act u ov nv d)) =
     (case (if fst (pop (update_faults w)) then None
            else map_option u (find (\<lambda>r. row_id r = t) (tasks w))) of
        None \<Rightarrow> Inl ''Failed to update task''
      | Some r \<Rightarrow> Inr (fst (mapTaskRecord
            (snd (tasks_table_update (snd (logAction w v t act ov nv d None)) t u)) r)))"
proof -
  have "fst (tasks_table_update (snd (logAction w v t act ov nv d None)) t u) =
     (if fst (pop (update_faults w)) then None
            else map_option u (find (\<lambda>r. row_id r = t) (tasks w)))"
    by (simp add: tasks_table_update_fst)
  then show ?thesis
    by (simp add: atomicTaskOperation_def split_beta split: option.splits)
qed

lemma getTaskById_found:
  "(fst (getTaskById w t) \<noteq> None) =
     (\<not> fst (pop (find_faults w)) \<and> find (\<lambda>r. row_id r = t) (tasks w) \<noteq> None)"
  by (auto simp: getTaskById_fst)

lemma statusUpdateFields_row_id [simp]: "row_id (statusUpdateFields n st v r) = row_id r"
  by (cases st) (simp_all add: statusUpdateFields_def Let_def)

lemma statusUpdateFields_cols [simp]:
  "status_col (statusUpdateFields n st v r) = Some (status_value st)"
  "current_operator (statusUpdateFields n st v r) =
     Some (Scalar (if truthy v then the v else []))"
  "in_exception_pool (statusUpdateFields n st v r) = in_exception_pool r"
  "exception_reason (statusUpdateFields n st v r) = exception_reason r"
  "is_paused (statusUpdateFields n st v r) = is_paused r"
  by (cases st; simp add: statusUpdateFields_def Let_def)+

lemma updateTaskStatus_frame [simp]:
  "staff (snd (updateTaskStatus w t st v)) = staff w"
  "select_faults (snd (updateTaskStatus w t st v)) = select_faults w"
  "now (snd (updateTaskStatus w t st v)) = now w"
  "date_parse (snd (updateTaskStatus w t st v)) = date_parse w"
  "find_faults (snd (updateTaskStatus w t st v)) = snd (pop (find_faults w))"
  by (simp_all add: updateTaskStatus_def split_beta split: option.splits sum.splits)

lemma updateTaskStatus_tasks:
  "tasks (snd (updateTaskStatus w t st v)) =
     (if fst (getTaskById w t) = None \<or> fst (pop (update_faults w)) then tasks w
      else map (\<lambda>x. if row_id x = t then statusUpdateFields (now w) st v x else x) (tasks w))"
  by (simp add: updateTaskStatus_def split_beta atomicTaskOperation_tasks tasks_table_update_tasks
      split: option.splits sum.splits)



lemma updateTaskStatus_fst_absent:
  "fst (getTaskById w t) = None \<Longrightarrow> fst (updateTaskStatus w t st v) = Inr None"
  by (simp add: updateTaskStatus_def split_beta split: option.splits)

lemma updateTaskStatus_fst_update_fails:
  "fst (getTaskById w t) \<noteq> None \<Longrightarrow> fst (pop (update_faults w)) \<Longrightarrow>
   fst (updateTaskStatus w t st v) = Inl ''Failed to update task status''"
  using atomicTaskOperation_fst [of "snd (getTaskById w t)" t "the v" "getActionTypeForStatus st"
      "statusUpdateFields (now w) st v" "Some (status (the (fst (getTaskById w t))))"
      "Some (status_value st)"
      "Some (''Status updated from '' @ status (the (fst (getTaskById w t))) @ '' to '' @ status_value st)"]
  by (auto simp: updateTaskStatus_def split_beta tasks_table_update_fst split: option.splits sum.splits)

lemma updateTaskStatus_fst_ok:
  assumes "fst (getTaskById w t) \<noteq> None" and "\<not> fst (pop (update_faults w))"
  shows "\<exists>r w''. find (\<lambda>r. row_id r = t) (tasks w) = Some r
           \<and> fst (updateTaskStatus w t st v)
               = Inr (Some (fst (mapTaskRecord w'' (statusUpdateFields (now w) st v r))))"
proof -
  from assms(1) have "find (\<lambda>r. row_id r = t) (tasks w) \<noteq> None"
    using getTaskById_found [of w t] by blast
  then obtain r where r: "find (\<lambda>r. row_id r = t) (tasks w) = Some r"
    by auto
  show ?thesis
  proof (cases "truthy v")
    case True
    have "map_sum id fst (fst (atomicTaskOperation (snd (getTaskById w t)) t (the v) (getActionTypeForStatus st)
      (statusUpdateFields (now w) st v) (Some (status (the (fst (getTaskById w t)))))
      (Some (status_value st))
      (Some (''Status updated from '' @ status (the (fst (getTaskById w t))) @ '' to '' @ status_value st))))
      = Inr (fst (mapTaskRecord (snd (tasks_table_update (snd (logAction (snd (getTaskById w t)) (the v) t (getActionTypeForStatus st)
         (Some (status (the (fst (getTaskById w t)))))
      (Some (status_value st))
      (Some (''Status updated from '' @ status (the (fst (getTaskById w t))) @ '' to '' @ status_value st)) None)) t (statusUpdateFields (now w) st v))) (statusUpdateFields (now w) st v r)))"
      using assms(2) r by (simp add: atomicTaskOperation_fst)
    with True assms(1) r show ?thesis
      by (auto simp: updateTaskStatus_def split_beta split: option.splits sum.splits)
  next
    case False
    with assms r show ?thesis
      by (auto simp: updateTaskStatus_def split_beta tasks_table_update_fst split: option.splits sum.splits)
  qed
qed

section \<open>The task action route\<close>

lemma pauseUpdateFields_cols [simp]:
  "row_id (pauseUpdateFields n r) = row_id r"
  "current_operator (pauseUpdateFields n r) = Some (Scalar [])"
  "is_paused (pauseUpdateFields n r) = Some True"
  "status_col (pauseUpdateFields n r) = status_col r"
  by (simp_all add: pauseUpdateFields_def)

lemma resumeUpdateFields_cols [simp]:
  "row_id (resumeUpdateFields n v r) = row_id r"
  "is_paused (resumeUpdateFields n v r) = Some False"
  "status_col (resumeUpdateFields n v r) = status_col r"
  by (simp_all add: resumeUpdateFields_def Let_def)

lemma pauseTask_frame [simp]:
  "staff (snd (pauseTask w t v)) = staff w"
  "select_faults (snd (pauseTask w t v)) = select_faults w"
  "now (snd (pauseTask w t v)) = now w"
  "date_parse (snd (pauseTask w t v)) = date_parse w"
  "update_faults (snd (pauseTask w t v)) = snd (pop (update_faults w))"
  by (simp_all add: pauseTask_def split_beta split: option.splits sum.splits)

lemma pauseTask_tasks:
  "tasks (snd (pauseTask w t v)) =
     (if fst (pop (update_faults w)) then tasks w
      else map (\<lambda>x. if row_id x = t then pauseUpdateFields (now w) x else x) (tasks w))"
  by (simp add: pauseTask_def split_beta atomicTaskOperation_tasks tasks_table_update_tasks
      split: option.splits sum.splits)



lemma pauseTask_fst_Inr:
  assumes "fst (pauseTask w t v) = Inr x"
  shows "\<exists>r w''. find (\<lambda>r. row_id r = t) (tasks w) = Some r \<and> \<not> fst (pop (update_faults w))
           \<and> x = Some (fst (mapTaskRecord w'' (pauseUpdateFields (now w) r)))"
proof (cases "truthy v")
  case True
  let ?a = "atomicTaskOperation (snd (getTaskById w t)) t (the v) ''PAUSE_TASK''
      (pauseUpdateFields (now w)) (map_option status (fst (getTaskById w t)))
      (map_option status (fst (getTaskById w t))) (Some ''Task paused by operator'')"
  from assms True obtain p where a: "fst ?a = Inr p" and x: "x = Some (fst p)"
    by (auto simp: pauseTask_def split_beta split: sum.splits)
  from a atomicTaskOperation_fst [of "snd (getTaskById w t)" t "the v" "''PAUSE_TASK''"
      "pauseUpdateFields (now w)" "map_option status (fst (getTaskById w t))"
      "map_option status (fst (getTaskById w t))" "Some ''Task paused by operator''"]
  show ?thesis
    using x by (auto split: if_splits option.splits)
next
  case False
  with assms show ?thesis
    by (auto simp: pauseTask_def split_beta tasks_table_update_fst split: option.splits if_splits)
qed

lemma finish_eq:
  "finish x =
     (case fst x of
        Inl msg \<Rightarrow> server_error ''Failed to perform task action'' msg
      | Inr None \<Rightarrow> not_found ''Task not found or update failed''
      | Inr (Some t) \<Rightarrow> ok t, snd x)"
  by (cases x) (simp add: finish_def split: sum.splits option.splits)

lemma finish_code:
  "res_code (fst (finish x)) =
     (case fst x of Inl msg \<Rightarrow> 500 | Inr None \<Rightarrow> 404 | Inr (Some t) \<Rightarrow> 200)"
  by (simp add: finish_eq server_error_def not_found_def ok_def split: sum.splits option.splits)

lemma finish_data:
  "res_data (fst (finish x)) = (case fst x of Inl msg \<Rightarrow> None | Inr y \<Rightarrow> y)"
  by (simp add: finish_eq server_error_def not_found_def ok_def split: sum.splits option.splits)

lemma finish_snd [simp]: "snd (finish x) = snd x"
  by (simp add: finish_eq)

lemma update_then_log_code:
  "res_code (fst (update_then_log w t st uv doLog v act old dtl)) =
     (case fst (updateTaskStatus w t st uv) of Inl msg \<Rightarrow> 500 | Inr None \<Rightarrow> 404 | Inr (Some x) \<Rightarrow> 200)"
  by (simp add: update_then_log_def split_beta finish_code split: sum.splits option.splits)

lemma update_then_log_data:
  "res_data (fst (update_then_log w t st uv doLog v act old dtl)) =
     (case fst (updateTaskStatus w t st uv) of Inl msg \<Rightarrow> None | Inr y \<Rightarrow> y)"
  by (simp add: update_then_log_def split_beta finish_data split: sum.splits option.splits)

lemma update_then_log_tasks:
  "tasks (snd (update_then_log w t st uv doLog v act old dtl)) = tasks (snd (updateTaskStatus w t st uv))"
  by (simp add: update_then_log_def split_beta split: sum.splits option.splits)

lemma update_then_log_audit_log_failed:
  assumes "res_code (fst (update_then_log w t st uv doLog v act old dtl)) = 500"
  shows "audit_log (snd (update_then_log w t st uv doLog v act old dtl))
           = audit_log (snd (updateTaskStatus w t st uv))"
proof -
  from assms obtain msg where "fst (updateTaskStatus w t st uv) = Inl msg"
    by (auto simp: update_then_log_code split: sum.splits option.splits)
  then show ?thesis
    by (simp add: update_then_log_def split_beta)
qed

lemma resumeTask_frame [simp]:
  "staff (snd (resumeTask w t v)) = staff w"
  "select_faults (snd (resumeTask w t v)) = select_faults w"
  "now (snd (resumeTask w t v)) = now w"
  "date_parse (snd (resumeTask w t v)) = date_parse w"
  "find_faults (snd (resumeTask w t v)) = snd (pop (find_faults w))"
  by (simp_all add: resumeTask_def split_beta split: option.splits sum.splits)




text \<open>The branches of the handler, once the request names a task and an action.\<close>

lemma handler_status_branch:
  assumes "truthy (req_task_id req)" and "req_action req = Some (action_value act)"
  shows "act = START_PICKING \<Longrightarrow> task_action_handler w req
           = finish (updateTaskStatus w (the (req_task_id req)) PICKING (req_operator_id req))"
    and "act = START_INSPECTION \<Longrightarrow> task_action_handler w req
           = finish (updateTaskStatus w (the (req_task_id req)) INSPECTING (req_operator_id req))"
    and "act = START_CORRECTION \<Longrightarrow> task_action_handler w req
           = finish (updateTaskStatus w (the (req_task_id req)) CORRECTING (req_operator_id req))"
    and "act = CANCEL_TASK \<Longrightarrow> task_action_handler w req
           = finish (updateTaskStatus w (the (req_task_id req)) CANCELLED (req_operator_id req))"
    and "act = ENTER_CORRECTION \<Longrightarrow> truthy (pget (req_payload req) errorType) \<Longrightarrow>
         task_action_handler w req
           = finish (updateTaskStatus w (the (req_task_id req)) CORRECTION_NEEDED (req_operator_id req))"
    and "act = PAUSE_TASK \<Longrightarrow> task_action_handler w req
           = finish (pauseTask w (the (req_task_id req)) (req_operator_id req))"
    and "act = RESUME_TASK \<Longrightarrow> truthy (req_operator_id req) \<Longrightarrow> task_action_handler w req
           = finish (resumeTask w (the (req_task_id req)) (the (req_operator_id req)))"
  using assms by (simp_all add: task_action_handler_def Let_def del: action_value.simps)

lemma handler_log_branch:
  assumes "truthy (req_task_id req)" and "req_action req = Some (action_value act)"
  shows "act = START_PACKING \<Longrightarrow> truthy (pget (req_payload req) weight) \<Longrightarrow>
         truthy (pget (req_payload req) dimensions) \<Longrightarrow>
         task_action_handler w req
           = update_then_log w (the (req_task_id req)) PACKED None (truthy (req_operator_id req))
               (the (req_operator_id req)) (action_value START_PACKING)
               (Some (status_value PICKING))
               (''Started packing. Weight: '' @ template (pget (req_payload req) weight)
                  @ '', Dimensions: '' @ template (pget (req_payload req) dimensions))"
    and "act = COMPLETE_INSPECTION \<Longrightarrow> task_action_handler w req
           = update_then_log (snd (getTaskById w (the (req_task_id req)))) (the (req_task_id req))
               COMPLETED None
               (truthy (req_operator_id req)
                \<and> truthy (map_option status (fst (getTaskById w (the (req_task_id req))))))
               (the (req_operator_id req)) (action_value COMPLETE_INSPECTION)
               (map_option status (fst (getTaskById w (the (req_task_id req)))))
               ''Inspection completed successfully''"
    and "act = RESOLVE_CORRECTION \<Longrightarrow> task_action_handler w req
           = update_then_log (snd (getTaskById w (the (req_task_id req)))) (the (req_task_id req))
               COMPLETED None
               (truthy (req_operator_id req)
                \<and> truthy (map_option status (fst (getTaskById w (the (req_task_id req))))))
               (the (req_operator_id req)) (action_value RESOLVE_CORRECTION)
               (map_option status (fst (getTaskById w (the (req_task_id req)))))
               ''Correction resolved and task completed''"
    and "act = LABEL_CREATED \<Longrightarrow> task_action_handler w req
           = update_then_log (snd (getTaskById w (the (req_task_id req)))) (the (req_task_id req))
               COMPLETED None
               (truthy (req_operator_id req)
                \<and> truthy (map_option status (fst (getTaskById w (the (req_task_id req))))))
               (the (req_operator_id req)) (action_value LABEL_CREATED)
               (map_option status (fst (getTaskById w (the (req_task_id req)))))
               ''New label printed. Task completed.''"
    and "act = REPORT_EXCEPTION \<Longrightarrow> truthy (pget (req_payload req) reason) \<Longrightarrow>
         task_action_handler w req
           = update_then_log (snd (getTaskById w (the (req_task_id req)))) (the (req_task_id req))
               PENDING (req_operator_id req)
               (truthy (req_operator_id req)
                \<and> truthy (map_option status (fst (getTaskById w (the (req_task_id req))))))
               (the (req_operator_id req)) (action_value REPORT_EXCEPTION)
               (map_option status (fst (getTaskById w (the (req_task_id req)))))
               (''Exception reported: '' @ template (pget (req_payload req) reason) @ '' - ''
                  @ or_default (pget (req_payload req) payload_notes) [])"
  using assms
  by (simp_all add: task_action_handler_def split_beta Let_def del: action_value.simps status_value.simps)

lemma handler_validation:
  assumes "req_action req = Some (action_value act)"
  shows "act = START_PACKING \<Longrightarrow>
           \<not> truthy (pget (req_payload req) weight) \<or> \<not> truthy (pget (req_payload req) dimensions) \<Longrightarrow>
           res_code (fst (task_action_handler w req)) = 400"
    and "act = ENTER_CORRECTION \<Longrightarrow> \<not> truthy (pget (req_payload req) errorType) \<Longrightarrow>
           res_code (fst (task_action_handler w req)) = 400"
    and "act = REPORT_EXCEPTION \<Longrightarrow> \<not> truthy (pget (req_payload req) reason) \<Longrightarrow>
           res_code (fst (task_action_handler w req)) = 400"
    and "act = RESUME_TASK \<Longrightarrow> \<not> truthy (req_operator_id req) \<Longrightarrow>
           res_code (fst (task_action_handler w req)) = 400"
  using assms
  by (auto simp: task_action_handler_def bad_request_def Let_def simp del: action_value.simps)

lemma getTaskById_found_no_faults:
  "find_faults w = [] \<Longrightarrow> find (\<lambda>r. row_id r = t) (tasks w) = Some r \<Longrightarrow>
   fst (getTaskById w t) \<noteq> None \<and> find_faults (snd (getTaskById w t)) = []"
  using getTaskById_found [of w t] by simp


lemma update_then_log_failed_update:
  assumes "fst (getTaskById w t) \<noteq> None" and "fst (pop (update_faults w))"
  shows "res_code (fst (update_then_log w t st uv doLog v act old dtl)) = 500"
    and "tasks (snd (update_then_log w t st uv doLog v act old dtl)) = tasks w"
    and "audit_log (snd (update_then_log w t st uv doLog v act old dtl))
           = audit_log (snd (updateTaskStatus w t st uv))"
proof -
  show c: "res_code (fst (update_then_log w t st uv doLog v act old dtl)) = 500"
    using assms by (simp add: update_then_log_code updateTaskStatus_fst_update_fails)
  show "tasks (snd (update_then_log w t st uv doLog v act old dtl)) = tasks w"
    using assms by (simp add: update_then_log_tasks updateTaskStatus_tasks)
  show "audit_log (snd (update_then_log w t st uv doLog v act old dtl))
           = audit_log (snd (updateTaskStatus w t st uv))"
    using c by (rule update_then_log_audit_log_failed)
qed

lemma handler_missing_fields:
  "\<not> truthy (req_task_id req) \<or> \<not> truthy (req_action req) \<Longrightarrow>
   task_action_handler w req = (bad_request ''Missing required fields: task_id and action'', w)"
  by (auto simp: task_action_handler_def)

lemma bad_request_code [simp]: "res_code (bad_request e) = 400"
  by (simp add: bad_request_def)

lemma update_then_log_ok:
  assumes "res_code (fst (update_then_log w t st uv doLog v act old dtl)) = 200"
  shows "\<exists>r w''. find (\<lambda>x. row_id x = t) (tasks w) = Some r
           \<and> res_data (fst (update_then_log w t st uv doLog v act old dtl))
               = Some (fst (mapTaskRecord w'' (statusUpdateFields (now w) st uv r)))
           \<and> find (\<lambda>x. row_id x = t) (tasks (snd (update_then_log w t st uv doLog v act old dtl)))
               = Some (statusUpdateFields (now w) st uv r)"
proof -
  from assms obtain x where x: "fst (updateTaskStatus w t st uv) = Inr (Some x)"
    by (auto simp: update_then_log_code split: sum.splits option.splits)
  have found: "fst (getTaskById w t) \<noteq> None"
    using x updateTaskStatus_fst_absent [of w t st uv] by auto
  have noflt: "\<not> fst (pop (update_faults w))"
    using x found updateTaskStatus_fst_update_fails [of w t st uv] by auto
  from updateTaskStatus_fst_ok [OF found noflt, of st uv] obtain r w''
    where r: "find (\<lambda>r. row_id r = t) (tasks w) = Some r"
      and u: "fst (updateTaskStatus w t st uv)
               = Inr (Some (fst (mapTaskRecord w'' (statusUpdateFields (now w) st uv r))))"
    by blast
  have "find (\<lambda>x. row_id x = t)
          (map (\<lambda>x. if row_id x = t then statusUpdateFields (now w) st uv x else x) (tasks w))
        = Some (statusUpdateFields (now w) st uv r)"
    using r by (intro find_map_update) simp_all
  with r u found noflt show ?thesis
    by (auto simp: update_then_log_data update_then_log_tasks updateTaskStatus_tasks)
qed

lemma pause_ok:
  assumes "res_code (fst (finish (pauseTask w t v))) = 200"
  shows "\<exists>r w''. find (\<lambda>x. row_id x = t) (tasks w) = Some r
           \<and> res_data (fst (finish (pauseTask w t v)))
               = Some (fst (mapTaskRecord w'' (pauseUpdateFields (now w) r)))
           \<and> find (\<lambda>x. row_id x = t) (tasks (snd (finish (pauseTask w t v))))
               = Some (pauseUpdateFields (now w) r)"
proof -
  from assms obtain x where x: "fst (pauseTask w t v) = Inr (Some x)"
    by (auto simp: finish_code split: sum.splits option.splits)
  from pauseTask_fst_Inr [OF x] obtain r w''
    where r: "find (\<lambda>r. row_id r = t) (tasks w) = Some r"
      and noflt: "\<not> fst (pop (update_faults w))"
      and u: "x = fst (mapTaskRecord w'' (pauseUpdateFields (now w) r))"
    by auto
  have "find (\<lambda>x. row_id x = t)
          (map (\<lambda>x. if row_id x = t then pauseUpdateFields (now w) x else x) (tasks w))
        = Some (pauseUpdateFields (now w) r)"
    using r by (intro find_map_update) simp_all
  with r u x noflt show ?thesis
    by (auto simp: finish_data pauseTask_tasks)
qed

lemma get_task_handler_code:
  "res_code (fst (get_task_handler w t)) =
     (if fst (pop (find_faults w)) \<or> find (\<lambda>x. row_id x = t) (tasks w) = None then 404
      else if header_ok w
                (or_default (updated_at (the (find (\<lambda>x. row_id x = t) (tasks w)))) ''unknown'')
           then 200 else 500)"
  by (auto simp: get_task_handler_def getTaskById_def tasks_table_find_eq split_beta
        not_found_def ok_def server_error_def mapTaskRecord_def
      split: option.splits)

lemma get_staff_handler_code:
  "sres_code (fst (get_staff_handler w s)) =
     (if fst (pop (staff_faults w)) \<or> find (\<lambda>x. staff_id x = Some s) (staff w) = None
      then 404 else 200)"
  by (auto simp: get_staff_handler_def getStaffById_eq getOperatorFromStaffId_eq)

lemma dashboard_handler_select_fails:
  "fst (pop (select_faults w)) \<Longrightarrow> dash_code (fst (dashboard_handler w)) = 500"
  by (simp add: dashboard_handler_def getTasksGroupedByStatusOptimized_def
        getAllTasksOptimized_def tasks_table_select_def split_beta)


text \<open>
  The issue report route's \<open>moveTaskToExceptionPool\<close> is where the exception pool columns
  are written and the operator is cleared.
\<close>

lemma moveTaskToExceptionPool_effect:
  assumes "find (\<lambda>x. row_id x = t) (tasks w) = Some r"
    and "\<not> fst (pop (update_faults w))"
  shows "fst (moveTaskToExceptionPool w t why description v) = Inr ()
       \<and> find (\<lambda>x. row_id x = t) (tasks (snd (moveTaskToExceptionPool w t why description v)))
           = Some (exceptionUpdateFields (now w) why description r)
       \<and> status_col (exceptionUpdateFields (now w) why description r) = Some (status_value PENDING)
       \<and> in_exception_pool (exceptionUpdateFields (now w) why description r) = Some True
       \<and> exception_reason (exceptionUpdateFields (now w) why description r) = Some why
       \<and> current_operator (exceptionUpdateFields (now w) why description r) = Some (Scalar [])"
proof -
  have "find (\<lambda>x. row_id x = t)
          (map (\<lambda>x. if row_id x = t then exceptionUpdateFields (now w) why description x else x)
             (tasks w))
        = Some (exceptionUpdateFields (now w) why description r)"
    using assms(1) by (intro find_map_update) (simp_all add: exceptionUpdateFields_def)
  with assms show ?thesis
    by (simp add: moveTaskToExceptionPool_def split_beta tasks_table_update_fst
          tasks_table_update_tasks exceptionUpdateFields_def split: option.splits)
qed

section \<open>Independence of the audit writes\<close>

lemma with_audit_fields [simp]:
  "tasks (with_audit w fs al) = tasks w"
  "staff (with_audit w fs al) = staff w"
  "find_faults (with_audit w fs al) = find_faults w"
  "update_faults (with_audit w fs al) = update_faults w"
  "select_faults (with_audit w fs al) = select_faults w"
  "staff_faults (with_audit w fs al) = staff_faults w"
  "now (with_audit w fs al) = now w"
  "date_parse (with_audit w fs al) = date_parse w"
  "audit_faults (with_audit w fs al) = fs"
  "audit_log (with_audit w fs al) = al"
  by (simp_all add: with_audit_def)

lemma with_audit_twice [simp]: "with_audit (with_audit w fs al) fs' al' = with_audit w fs' al'"
  by (simp add: with_audit_def)

lemma with_audit_same [simp]: "with_audit w (audit_faults w) (audit_log w) = w"
  by (simp add: with_audit_def)










lemma createdAtISO_with_audit [simp]: "createdAtISO (with_audit w fs al) x = createdAtISO w x"
  by (simp add: createdAtISO_def toISOString_def split: option.splits)




lemma auditFields_with_audit [simp]:
  "auditFields (with_audit w fs al) rid nm t a ov nv d ts = auditFields w rid nm t a ov nv d ts"
  by (simp add: auditFields_def)




















section \<open>Status codes of the task action route in closed form\<close>








lemma handler_unknown_action:
  "truthy (req_task_id req) \<Longrightarrow> truthy (req_action req) \<Longrightarrow>
   parse_action (the (req_action req)) = None \<Longrightarrow>
   res_code (fst (task_action_handler w req)) = 400"
  by (simp add: task_action_handler_def)


lemma updateFields_updated_at [simp]:
  "updated_at (statusUpdateFields n st v r) = Some n"
  "updated_at (pauseUpdateFields n r) = Some n"
  "updated_at (resumeUpdateFields n op r) = Some n"
  "op \<noteq> [] \<Longrightarrow> current_operator (resumeUpdateFields n op r) = Some (Scalar op)"
  by (cases st; simp add: statusUpdateFields_def pauseUpdateFields_def resumeUpdateFields_def Let_def)+





lemma updateTaskStatus_tasks_absent:
  "fst (getTaskById w t) = None \<Longrightarrow> tasks (snd (updateTaskStatus w t st v)) = tasks w"
  by (simp add: updateTaskStatus_tasks)

lemma updateTaskStatus_audit_faults_system [simp]:
  "\<not> truthy v \<Longrightarrow> audit_faults (snd (updateTaskStatus w t st v)) = audit_faults w"
  by (simp add: updateTaskStatus_def split_beta split: option.splits sum.splits)














section \<open>The claims on the task routes\<close>





text \<open>
  C2, as stated, fails for REPORT_EXCEPTION: the branch passes the operator to
  \<open>updateTaskStatus\<close>, which writes it into \<^verbatim>\<open>current_operator\<close>.
\<close>

theorem report_exception_operator_counterexample:
  "res_code (fst (task_action_handler sample_store (sample_request REPORT_EXCEPTION))) = 200
   \<and> map_option currentOperator
        (res_data (fst (task_action_handler sample_store (sample_request REPORT_EXCEPTION))))
       = Some (Some \<lparr>id_sm = Some ''CAT001'', name_sm = Some ''Tama''\<rparr>)
   \<and> map current_operator
        (tasks (snd (task_action_handler sample_store (sample_request REPORT_EXCEPTION))))
       = [Some (Scalar ''CAT001'')]"
  by (simp add: model_defs)

text \<open>
  C2, amended. After a successful request (200) with one of the actions START_PACKING,
  COMPLETE_INSPECTION, RESOLVE_CORRECTION, LABEL_CREATED and PAUSE_TASK the task's row has
  an empty \<^verbatim>\<open>current_operator\<close> and the returned task has no operator. After a successful
  REPORT_EXCEPTION the row's \<^verbatim>\<open>current_operator\<close> is the request's operator when one is
  given, and empty (with no operator in the returned task) only when none is given.
\<close>

theorem operator_after_clearing_actions:
  assumes act: "req_action req = Some (action_value act)"
    and inset: "act \<in> {START_PACKING, COMPLETE_INSPECTION, RESOLVE_CORRECTION, LABEL_CREATED,
                       PAUSE_TASK, REPORT_EXCEPTION}"
    and ok: "res_code (fst (task_action_handler w req)) = 200"
  shows "\<exists>t r. res_data (fst (task_action_handler w req)) = Some t
           \<and> find (\<lambda>x. row_id x = the (req_task_id req)) (tasks (snd (task_action_handler w req)))
               = Some r
           \<and> current_operator r
               = Some (Scalar (if act = REPORT_EXCEPTION \<and> truthy (req_operator_id req)
                               then the (req_operator_id req) else []))
           \<and> (act \<noteq> REPORT_EXCEPTION \<or> \<not> truthy (req_operator_id req) \<longrightarrow>
                currentOperator t = None)"
proof -
  let ?t = "the (req_task_id req)"
  let ?w1 = "snd (getTaskById w ?t)"
  have tid: "truthy (req_task_id req)"
  proof (rule ccontr)
    assume "\<not> truthy (req_task_id req)"
    then have "res_code (fst (task_action_handler w req)) = 400"
      by (simp add: handler_missing_fields)
    with ok show False by simp
  qed
  consider "act = START_PACKING" | "act = COMPLETE_INSPECTION" | "act = RESOLVE_CORRECTION"
    | "act = LABEL_CREATED" | "act = PAUSE_TASK" | "act = REPORT_EXCEPTION"
    using inset by auto
  then show ?thesis
  proof cases
    case 1
    with ok handler_validation(1) [OF act, of w]
    have "truthy (pget (req_payload req) weight)" "truthy (pget (req_payload req) dimensions)"
      by auto
    with 1 handler_log_branch(1) [OF tid act, of w]
    have eq: "task_action_handler w req
           = update_then_log w ?t PACKED None (truthy (req_operator_id req))
               (the (req_operator_id req)) (action_value START_PACKING)
               (Some (status_value PICKING))
               (''Started packing. Weight: '' @ template (pget (req_payload req) weight)
                  @ '', Dimensions: '' @ template (pget (req_payload req) dimensions))"
      by simp
    from update_then_log_ok [OF ok [unfolded eq]] 1 show ?thesis
      unfolding eq by (auto simp: mapTaskRecord_operator_cleared)
  next
    case 2
    note eq = handler_log_branch(2) [OF tid act 2, of w]
    from update_then_log_ok [OF ok [unfolded eq]] 2 show ?thesis
      unfolding eq by (auto simp: mapTaskRecord_operator_cleared)
  next
    case 3
    note eq = handler_log_branch(3) [OF tid act 3, of w]
    from update_then_log_ok [OF ok [unfolded eq]] 3 show ?thesis
      unfolding eq by (auto simp: mapTaskRecord_operator_cleared)
  next
    case 4
    note eq = handler_log_branch(4) [OF tid act 4, of w]
    from update_then_log_ok [OF ok [unfolded eq]] 4 show ?thesis
      unfolding eq by (auto simp: mapTaskRecord_operator_cleared)
  next
    case 5
    note eq = handler_status_branch(6) [OF tid act 5, of w]
    from pause_ok [OF ok [unfolded eq]] 5 show ?thesis
      unfolding eq by (auto simp: mapTaskRecord_operator_cleared)
  next
    case 6
    with ok handler_validation(3) [OF act, of w]
    have "truthy (pget (req_payload req) reason)"
      by auto
    note eq = handler_log_branch(5) [OF tid act 6 this, of w]
    from update_then_log_ok [OF ok [unfolded eq]] 6 show ?thesis
      unfolding eq by (auto simp: mapTaskRecord_operator_cleared)
  qed
qed

theorem operator_after_clearing_actions_witness:
  "res_code (fst (task_action_handler sample_store (sample_request START_PACKING))) = 200
   \<and> map_option currentOperator
        (res_data (fst (task_action_handler sample_store (sample_request START_PACKING))))
       = Some None
   \<and> map current_operator
        (tasks (snd (task_action_handler sample_store (sample_request START_PACKING))))
       = [Some (Scalar [])]"
  using operator_after_clearing_actions
    [of "sample_request START_PACKING" START_PACKING sample_store]
  by (simp add: model_defs)









end
